theory Spec2Isabelle
  imports Complex_Main
begin

section \<open>The ECMAScript runtime functions the application calls\<close>

text \<open>
  The application buckets timestamps with
  \<^verbatim>\<open>new Date(ms).toISOString().split('T')[0]\<close> and reads keys back with
  \<^verbatim>\<open>new Date(key)\<close>.  These are functions of the JavaScript runtime; they are
  modelled after ECMA-262 (section "Date Objects"), with the names of the standard.
  Time values are integral milliseconds since the epoch (\<open>int\<close>); a Date object is its
  \<open>[[DateValue]]\<close>, an \<open>int option\<close> where \<open>None\<close> is the invalid date (NaN).
  Other JavaScript numbers (energy, weight, volume) are idealised as \<open>real\<close>; counters
  that only ever hold integers are \<open>int\<close>.  A thrown exception is the \<open>Inl\<close> branch of
  a sum.
\<close>

datatype js_error = RangeError | SyntaxError | Error string

definition msPerDay :: int where
  "msPerDay = 86400000"

definition Day :: "int \<Rightarrow> int" where
  "Day t = t div msPerDay"

definition TimeWithinDay :: "int \<Rightarrow> int" where
  "TimeWithinDay t = t mod msPerDay"

definition DaysInYear :: "int \<Rightarrow> int" where
  "DaysInYear y = (if y mod 4 \<noteq> 0 then 365 else if y mod 100 \<noteq> 0 then 366
                   else if y mod 400 \<noteq> 0 then 365 else 366)"

definition DayFromYear :: "int \<Rightarrow> int" where
  "DayFromYear y =
     365 * (y - 1970) + (y - 1969) div 4 - (y - 1901) div 100 + (y - 1601) div 400"

definition TimeFromYear :: "int \<Rightarrow> int" where
  "TimeFromYear y = msPerDay * DayFromYear y"

text \<open>
  ECMA-262 defines \<open>YearFromTime(t)\<close> as the largest \<open>y\<close> with \<open>TimeFromYear(y) \<le> t\<close>.
  The executable form below estimates the year from the mean year length and corrects
  the estimate by one; lemma \<open>YearFromTime_greatest\<close> shows it is that largest year.
\<close>

definition YearFromTime :: "int \<Rightarrow> int" where
  "YearFromTime t = (let y = 1970 + (400 * Day t) div 146097 in
     if TimeFromYear (y + 1) \<le> t then y + 1 else if TimeFromYear y \<le> t then y else y - 1)"

definition InLeapYear :: "int \<Rightarrow> int" where
  "InLeapYear t = (if DaysInYear (YearFromTime t) = 366 then 1 else 0)"

definition DayWithinYear :: "int \<Rightarrow> int" where
  "DayWithinYear t = Day t - DayFromYear (YearFromTime t)"

definition MonthFromTime :: "int \<Rightarrow> int" where
  "MonthFromTime t = (let d = DayWithinYear t; l = InLeapYear t in
     if d < 31 then 0 else if d < 59 + l then 1 else if d < 90 + l then 2
     else if d < 120 + l then 3 else if d < 151 + l then 4 else if d < 181 + l then 5
     else if d < 212 + l then 6 else if d < 243 + l then 7 else if d < 273 + l then 8
     else if d < 304 + l then 9 else if d < 334 + l then 10 else 11)"

definition DateFromTime :: "int \<Rightarrow> int" where
  "DateFromTime t = (let d = DayWithinYear t; l = InLeapYear t; m = MonthFromTime t in
     if m = 0 then d + 1 else if m = 1 then d - 30 else if m = 2 then d - 58 - l
     else if m = 3 then d - 89 - l else if m = 4 then d - 119 - l
     else if m = 5 then d - 150 - l else if m = 6 then d - 180 - l
     else if m = 7 then d - 211 - l else if m = 8 then d - 242 - l
     else if m = 9 then d - 272 - l else if m = 10 then d - 303 - l else d - 333 - l)"

definition HourFromTime :: "int \<Rightarrow> int" where
  "HourFromTime t = (t div 3600000) mod 24"

definition MinFromTime :: "int \<Rightarrow> int" where
  "MinFromTime t = (t div 60000) mod 60"

definition SecFromTime :: "int \<Rightarrow> int" where
  "SecFromTime t = (t div 1000) mod 60"

definition msFromTime :: "int \<Rightarrow> int" where
  "msFromTime t = t mod 1000"

text \<open>The day number, within its year, on which month \<open>m\<close> (0 to 11) begins.\<close>

definition DayFromMonth :: "int \<Rightarrow> int \<Rightarrow> int" where
  "DayFromMonth m l = (if m = 0 then 0 else if m = 1 then 31 else if m = 2 then 59 + l
     else if m = 3 then 90 + l else if m = 4 then 120 + l else if m = 5 then 151 + l
     else if m = 6 then 181 + l else if m = 7 then 212 + l else if m = 8 then 243 + l
     else if m = 9 then 273 + l else if m = 10 then 304 + l else 334 + l)"

definition MakeDay :: "int \<Rightarrow> int \<Rightarrow> int \<Rightarrow> int" where
  "MakeDay year month date = (let ym = year + month div 12; mn = month mod 12 in
     DayFromYear ym + DayFromMonth mn (if DaysInYear ym = 366 then 1 else 0) + date - 1)"

definition MakeDate :: "int \<Rightarrow> int \<Rightarrow> int" where
  "MakeDate day time = day * msPerDay + time"

definition TimeClip :: "int \<Rightarrow> int option" where
  "TimeClip t = (if \<bar>t\<bar> > 8640000000000000 then None else Some t)"

text \<open>\<^verbatim>\<open>new Date(value)\<close> for a numeric argument.\<close>

definition Date_new :: "int \<Rightarrow> int option" where
  "Date_new v = TimeClip v"

subsection \<open>Decimal fields of the ISO format\<close>

definition digit_char :: "nat \<Rightarrow> char" where
  "digit_char d = ''0123456789'' ! d"

definition digit_val :: "char \<Rightarrow> nat option" where
  "digit_val c = map_of (zip ''0123456789'' [0, 1, 2, 3, 4, 5, 6, 7, 8, 9]) c"

text \<open>\<open>digits w n\<close>: the \<open>w\<close> low decimal digits of \<open>n\<close>, zero padded.\<close>

fun digits :: "nat \<Rightarrow> nat \<Rightarrow> string" where
  "digits 0 n = []"
| "digits (Suc w) n = digits w (n div 10) @ [digit_char (n mod 10)]"

fun parse_nat :: "nat \<Rightarrow> string \<Rightarrow> nat option" where
  "parse_nat acc [] = Some acc"
| "parse_nat acc (c # cs) =
     (case digit_val c of None \<Rightarrow> None | Some d \<Rightarrow> parse_nat (10 * acc + d) cs)"

subsection \<open>\<^verbatim>\<open>Date.prototype.toISOString\<close> and \<^verbatim>\<open>split('T')[0]\<close>\<close>

text \<open>
  Years 0 to 9999 print as four digits; other years as a sign and six digits
  (the expanded-year form).  An invalid date makes \<open>toISOString\<close> throw a RangeError.
\<close>

definition isoYear :: "int \<Rightarrow> string" where
  "isoYear y = (if 0 \<le> y \<and> y \<le> 9999 then digits 4 (nat y)
                else (if y < 0 then ''-'' else ''+'') @ digits 6 (nat \<bar>y\<bar>))"

definition isoDate :: "int \<Rightarrow> string" where
  "isoDate tv = isoYear (YearFromTime tv) @ ''-'' @ digits 2 (nat (MonthFromTime tv + 1))
                @ ''-'' @ digits 2 (nat (DateFromTime tv))"

definition isoTime :: "int \<Rightarrow> string" where
  "isoTime tv = digits 2 (nat (HourFromTime tv)) @ '':'' @ digits 2 (nat (MinFromTime tv))
                @ '':'' @ digits 2 (nat (SecFromTime tv)) @ ''.''
                @ digits 3 (nat (msFromTime tv))"

definition Date_toISOString :: "int option \<Rightarrow> js_error + string" where
  "Date_toISOString d = (case d of None \<Rightarrow> Inl RangeError
                         | Some tv \<Rightarrow> Inr (isoDate tv @ ''T'' @ isoTime tv @ ''Z''))"

definition split_T_0 :: "string \<Rightarrow> string" where
  "split_T_0 s = takeWhile (\<lambda>c. c \<noteq> CHR ''T'') s"

subsection \<open>\<^verbatim>\<open>new Date(string)\<close> on date-only ISO strings\<close>

text \<open>
  The only strings the application passes to \<^verbatim>\<open>new Date\<close> are day keys made by
  \<open>toISOString\<close>.  The model parses the date-only forms \<open>YYYY-MM-DD\<close> and
  \<open>\<plusminus>YYYYYY-MM-DD\<close> as UTC midnight and yields the invalid date for anything else.
\<close>

definition parse_ymd :: "bool \<Rightarrow> nat \<Rightarrow> string \<Rightarrow> int option" where
  "parse_ymd neg w s =
     (if length s = w + 6 \<and> s ! w = CHR ''-'' \<and> s ! (w + 3) = CHR ''-'' then
        (case (parse_nat 0 (take w s), parse_nat 0 (take 2 (drop (w + 1) s)),
               parse_nat 0 (drop (w + 4) s)) of
           (Some y, Some m, Some d) \<Rightarrow>
             if 1 \<le> m \<and> m \<le> 12 \<and> 1 \<le> d \<and> d \<le> 31 \<and> \<not> (neg \<and> y = 0)
             then TimeClip (MakeDate
                    (MakeDay (if neg then - int y else int y) (int m - 1) (int d)) 0)
             else None
         | _ \<Rightarrow> None)
      else None)"

definition Date_parse :: "string \<Rightarrow> int option" where
  "Date_parse s = (if s \<noteq> [] \<and> (hd s = CHR ''+'' \<or> hd s = CHR ''-'')
                   then parse_ymd (hd s = CHR ''-'') 6 (tl s) else parse_ymd False 4 s)"

subsection \<open>Local time, \<^verbatim>\<open>getDate\<close>, \<^verbatim>\<open>setDate\<close>, \<^verbatim>\<open>Math.round\<close>\<close>

text \<open>
  The host time zone is a parameter: \<open>tzaUTC t\<close> is the local offset in force at the UTC
  time \<open>t\<close>, \<open>tzaLocal t\<close> the offset in force at the local time \<open>t\<close>
  (\<open>LocalTZA(t, true)\<close> and \<open>LocalTZA(t, false)\<close> of the standard).
\<close>

definition LocalTime :: "(int \<Rightarrow> int) \<Rightarrow> int \<Rightarrow> int" where
  "LocalTime tzaUTC t = t + tzaUTC t"

definition UTC :: "(int \<Rightarrow> int) \<Rightarrow> int \<Rightarrow> int" where
  "UTC tzaLocal t = t - tzaLocal t"

definition Date_getDate :: "(int \<Rightarrow> int) \<Rightarrow> int option \<Rightarrow> int option" where
  "Date_getDate tzaUTC d =
     (case d of None \<Rightarrow> None | Some t \<Rightarrow> Some (DateFromTime (LocalTime tzaUTC t)))"

definition Date_setDate ::
  "(int \<Rightarrow> int) \<Rightarrow> (int \<Rightarrow> int) \<Rightarrow> int option \<Rightarrow> int option \<Rightarrow> int option" where
  "Date_setDate tzaUTC tzaLocal d date =
     (case (d, date) of
        (Some tv, Some dt) \<Rightarrow>
          (let t = LocalTime tzaUTC tv;
               newDate = MakeDate (MakeDay (YearFromTime t) (MonthFromTime t) dt)
                                  (TimeWithinDay t)
           in TimeClip (UTC tzaLocal newDate))
      | _ \<Rightarrow> None)"

definition Math_round :: "real \<Rightarrow> int" where
  "Math_round x = \<lfloor>x + 1 / 2\<rfloor>"

section \<open>types.ts\<close>

record Macronutrients =
  protein :: real
  carbs :: real
  fat :: real

record MealItem =
  name :: string
  calories :: real

record MealAnalysis =
  mealName :: string
  items :: "MealItem list"
  totalCalories :: real
  macronutrients :: Macronutrients
  confidenceScore :: real

record LoggedMeal = MealAnalysis +
  id' :: string
  timestamp :: int
  imageUrl :: "string option"

datatype ActivityLevel = sedentary | light | moderate | active | very_active

datatype Gender = male | female

datatype GoalType = lose | maintain | gain

record UserGoal =
  dailyCalories :: real
  dailyWater :: real
  currentWeight :: real
  targetWeight :: real
  height :: real
  age :: real
  gender :: Gender
  activityLevel :: ActivityLevel
  goalType :: GoalType

record WaterLog =
  id' :: string
  timestamp :: int
  amount :: real

datatype AppView = DASHBOARD | ADD_MEAL | HISTORY | SETTINGS

datatype InputMode = camera_mode | text_mode

section \<open>App.tsx: clock, logging and goal arithmetic\<close>

text \<open>
  The component state is one record with a field for each \<^verbatim>\<open>useState\<close> cell.  Handlers
  take the state and return the state after React has applied the queued updates.
  \<^verbatim>\<open>Date.now()\<close> and \<^verbatim>\<open>crypto.randomUUID()\<close> are arguments (\<open>now\<close>, \<open>newId\<close>).
  The values a closure captured at render time are taken to be those of the current
  state, which is what the effect dependencies \<^verbatim>\<open>[lastRealDateStr, dayOffset]\<close> arrange.
\<close>

record App =
  currentView :: AppView
  meals :: "LoggedMeal list"
  waterLogs :: "WaterLog list"
  goal :: UserGoal
  addMealInitialMode :: InputMode
  tempGoal :: UserGoal
  dayOffset :: int
  dayCount :: int
  lastRealDateStr :: string

definition DEFAULT_GOAL :: UserGoal where
  "DEFAULT_GOAL = \<lparr>dailyCalories = 2200, dailyWater = 2500, currentWeight = 70,
     targetWeight = 70, height = 170, age = 30, gender = male,
     activityLevel = moderate, goalType = maintain\<rparr>"

definition GMT_OFFSET_HOURS :: int where
  "GMT_OFFSET_HOURS = 3"

definition getGMT3DateString :: "int \<Rightarrow> js_error + string" where
  "getGMT3DateString timestamp' =
     (let offset = GMT_OFFSET_HOURS * 60 * 60 * 1000 in
      case Date_toISOString (Date_new (timestamp' + offset)) of
        Inl e \<Rightarrow> Inl e
      | Inr s \<Rightarrow> Inr (split_T_0 s))"

text \<open>The state of the first render, before anything is loaded from storage.\<close>

definition App_init :: "int \<Rightarrow> js_error + App" where
  "App_init now =
     (case getGMT3DateString now of
        Inl e \<Rightarrow> Inl e
      | Inr s \<Rightarrow> Inr \<lparr>currentView = DASHBOARD, meals = [], waterLogs = [],
                      goal = DEFAULT_GOAL, addMealInitialMode = camera_mode,
                      tempGoal = DEFAULT_GOAL, dayOffset = 0, dayCount = 1,
                      lastRealDateStr = s\<rparr>)"

text \<open>
  One tick of the one-second interval.  \<open>getGMT3DateString\<close> is evaluated before any
  update is queued, so an exception leaves the state as it was.
\<close>

definition checkDate :: "int \<Rightarrow> App \<Rightarrow> js_error + App" where
  "checkDate now st =
     (case getGMT3DateString now of
        Inl e \<Rightarrow> Inl e
      | Inr nowStr \<Rightarrow>
          Inr (if nowStr \<noteq> lastRealDateStr st then
                 (if dayOffset st > 0
                  then st\<lparr>lastRealDateStr := nowStr,
                          dayOffset := max 0 (dayOffset st - 1)\<rparr>
                  else st\<lparr>lastRealDateStr := nowStr, dayCount := dayCount st + 1\<rparr>)
               else st))"

definition getVirtualNow :: "int \<Rightarrow> App \<Rightarrow> int" where
  "getVirtualNow now st = (let msPerDay = 86400000 in now + dayOffset st * msPerDay)"

definition handleManualEndDay :: "App \<Rightarrow> App" where
  "handleManualEndDay st = st\<lparr>dayOffset := dayOffset st + 1, dayCount := dayCount st + 1\<rparr>"

text \<open>
  \<open>resetDayCounter\<close> queues the updates of \<open>dayCount\<close> and \<open>dayOffset\<close> before it
  evaluates \<open>getGMT3DateString\<close>; if that throws, the two queued updates still apply,
  so the exceptional result carries the state they produce.  The alert it shows at the
  end is not part of the state.
\<close>

definition resetDayCounter :: "int \<Rightarrow> App \<Rightarrow> (js_error \<times> App) + App" where
  "resetDayCounter now st =
     (let st1 = st\<lparr>dayCount := 1, dayOffset := 0\<rparr> in
      case getGMT3DateString now of
        Inl e \<Rightarrow> Inl (e, st1)
      | Inr s \<Rightarrow> Inr (st1\<lparr>lastRealDateStr := s\<rparr>))"

definition state_after :: "(js_error \<times> App) + App \<Rightarrow> App" where
  "state_after r = (case r of Inl (e, st) \<Rightarrow> st | Inr st \<Rightarrow> st)"

definition handleSaveMeal :: "string \<Rightarrow> int \<Rightarrow> MealAnalysis \<Rightarrow> string \<Rightarrow> App \<Rightarrow> App" where
  "handleSaveMeal newId now analysis' imageUrl' st =
     (let newMeal = MealAnalysis.extend analysis'
                      (LoggedMeal.fields newId (getVirtualNow now st) (Some imageUrl'))
      in st\<lparr>meals := newMeal # meals st, currentView := DASHBOARD\<rparr>)"

definition handleAddWater :: "string \<Rightarrow> int \<Rightarrow> real \<Rightarrow> App \<Rightarrow> App" where
  "handleAddWater newId now amount' st =
     (let newLog = \<lparr>id' = newId, timestamp = getVirtualNow now st, amount = amount'\<rparr>
      in st\<lparr>waterLogs := waterLogs st @ [newLog]\<rparr>)"

text \<open>\<^verbatim>\<open>Array.prototype.filter\<close> with a predicate that may throw.\<close>

fun filterE :: "('a \<Rightarrow> js_error + bool) \<Rightarrow> 'a list \<Rightarrow> js_error + 'a list" where
  "filterE p [] = Inr []"
| "filterE p (x # xs) =
     (case p x of
        Inl e \<Rightarrow> Inl e
      | Inr b \<Rightarrow> (case filterE p xs of
                    Inl e \<Rightarrow> Inl e
                  | Inr ys \<Rightarrow> Inr (if b then x # ys else ys)))"

definition sameDay :: "string \<Rightarrow> int \<Rightarrow> js_error + bool" where
  "sameDay currentVirtualDateStr ts =
     (case getGMT3DateString ts of Inl e \<Rightarrow> Inl e
      | Inr k \<Rightarrow> Inr (k = currentVirtualDateStr))"

definition todayMeals :: "int \<Rightarrow> App \<Rightarrow> js_error + LoggedMeal list" where
  "todayMeals now st =
     (case getGMT3DateString (getVirtualNow now st) of
        Inl e \<Rightarrow> Inl e
      | Inr currentVirtualDateStr \<Rightarrow>
          filterE (\<lambda>m. sameDay currentVirtualDateStr (LoggedMeal.timestamp m)) (meals st))"

definition todayWater :: "int \<Rightarrow> App \<Rightarrow> js_error + real" where
  "todayWater now st =
     (case getGMT3DateString (getVirtualNow now st) of
        Inl e \<Rightarrow> Inl e
      | Inr currentVirtualDateStr \<Rightarrow>
          (case filterE (\<lambda>w. sameDay currentVirtualDateStr (WaterLog.timestamp w))
                  (waterLogs st) of
             Inl e \<Rightarrow> Inl e
           | Inr ws \<Rightarrow> Inr (foldl (\<lambda>acc curr. acc + amount curr) 0 ws)))"

definition activityMultipliers :: "ActivityLevel \<Rightarrow> real" where
  "activityMultipliers a = (case a of sedentary \<Rightarrow> 1.2 | light \<Rightarrow> 1.375
     | moderate \<Rightarrow> 1.55 | active \<Rightarrow> 1.725 | very_active \<Rightarrow> 1.9)"

text \<open>The local variable \<open>bmr\<close> of \<open>calculateRecommendedCalories\<close>, after the gender adjustment.\<close>

definition bmr :: "UserGoal \<Rightarrow> real" where
  "bmr g = (let b = (10 * currentWeight g) + (6.25 * height g) - (5 * age g) in
            if gender g = male then b + 5 else b - 161)"

definition calculateRecommendedCalories :: "App \<Rightarrow> int \<times> App" where
  "calculateRecommendedCalories st =
     (let tdee = bmr (tempGoal st) * activityMultipliers (activityLevel (tempGoal st));
          r0 = tdee;
          r1 = (if goalType (tempGoal st) = lose then r0 - 500 else r0);
          recommendedCalories = (if goalType (tempGoal st) = gain then r1 + 500 else r1);
          finalCalories = Math_round recommendedCalories
      in (finalCalories,
          st\<lparr>tempGoal := (tempGoal st)\<lparr>dailyCalories := of_int finalCalories\<rparr>\<rparr>))"

section \<open>Dashboard.tsx: the hydration buttons\<close>

text \<open>
  The minus button is rendered \<^verbatim>\<open>disabled={todayWater <= 0}\<close> with the total of the last
  render (\<open>renderNow\<close>); a click that gets through calls \<^verbatim>\<open>onAddWater(-250)\<close>
  at \<open>clickNow\<close>.
\<close>

definition minusDisabled :: "real \<Rightarrow> bool" where
  "minusDisabled displayedWater = (displayedWater \<le> 0)"

definition clickMinus :: "string \<Rightarrow> int \<Rightarrow> int \<Rightarrow> App \<Rightarrow> js_error + App" where
  "clickMinus newId renderNow clickNow st =
     (case todayWater renderNow st of
        Inl e \<Rightarrow> Inl e
      | Inr displayed \<Rightarrow>
          Inr (if minusDisabled displayed then st
               else handleAddWater newId clickNow (- 250) st))"

section \<open>History.tsx: daily and period aggregation\<close>

datatype ViewMode = daily | weekly | monthly

record DayStats =
  calories :: real
  protein :: real
  carbs :: real
  fat :: real
  water :: real

definition History_getGMT3DateString :: "int \<Rightarrow> int \<Rightarrow> js_error + string" where
  "History_getGMT3DateString gmtOffset timestamp' =
     (case Date_toISOString (Date_new (timestamp' + gmtOffset * 3600 * 1000)) of
        Inl e \<Rightarrow> Inl e
      | Inr s \<Rightarrow> Inr (split_T_0 s))"

text \<open>
  \<open>getTargetDate\<close> parses the day key as UTC midnight and moves it with the local-time
  accessors \<^verbatim>\<open>getDate\<close> and \<^verbatim>\<open>setDate\<close>.  The sum \<^verbatim>\<open>baseDate.getDate() + offset\<close>
  is NaN when the base date is invalid.
\<close>

definition getTargetDate ::
  "(int \<Rightarrow> int) \<Rightarrow> (int \<Rightarrow> int) \<Rightarrow> string \<Rightarrow> int \<Rightarrow> int option" where
  "getTargetDate tzaUTC tzaLocal currentSystemDateStr offset =
     (let baseDate = Date_parse currentSystemDateStr;
          target = baseDate
      in Date_setDate tzaUTC tzaLocal target
           (case Date_getDate tzaUTC baseDate of None \<Rightarrow> None
            | Some d \<Rightarrow> Some (d + offset)))"

text \<open>\<^verbatim>\<open>d.toISOString().split('T')[0]\<close>.\<close>

definition dateStr :: "int option \<Rightarrow> js_error + string" where
  "dateStr d = (case Date_toISOString d of Inl e \<Rightarrow> Inl e | Inr s \<Rightarrow> Inr (split_T_0 s))"

definition zeroStats :: DayStats where
  "zeroStats = \<lparr>calories = 0, protein = 0, carbs = 0, fat = 0, water = 0\<rparr>"

text \<open>
  \<^verbatim>\<open>Array.prototype.forEach\<close> over a body that updates \<open>stats\<close> and may throw.  The
  object \<open>stats\<close> is a map from day keys to totals; it is written and read under keys
  that \<open>toISOString\<close> produced and under no other string.
\<close>

fun forEachE :: "('s \<Rightarrow> 'a \<Rightarrow> js_error + 's) \<Rightarrow> 'a list \<Rightarrow> 's \<Rightarrow> js_error + 's" where
  "forEachE f [] s = Inr s"
| "forEachE f (x # xs) s =
     (case f s x of Inl e \<Rightarrow> Inl e | Inr s' \<Rightarrow> forEachE f xs s')"

definition addMealStats ::
  "int \<Rightarrow> (string \<rightharpoonup> DayStats) \<Rightarrow> LoggedMeal \<Rightarrow> js_error + (string \<rightharpoonup> DayStats)" where
  "addMealStats gmtOffset stats meal =
     (case History_getGMT3DateString gmtOffset (LoggedMeal.timestamp meal) of
        Inl e \<Rightarrow> Inl e
      | Inr day \<Rightarrow>
          (let s = (case stats day of None \<Rightarrow> zeroStats | Some s \<Rightarrow> s) in
           Inr (stats(day \<mapsto> s\<lparr>
             DayStats.calories := DayStats.calories s + totalCalories meal,
             DayStats.protein := DayStats.protein s
                                 + Macronutrients.protein (macronutrients meal),
             DayStats.carbs := DayStats.carbs s + Macronutrients.carbs (macronutrients meal),
             DayStats.fat := DayStats.fat s + Macronutrients.fat (macronutrients meal)\<rparr>))))"

definition addWaterStats ::
  "int \<Rightarrow> (string \<rightharpoonup> DayStats) \<Rightarrow> WaterLog \<Rightarrow> js_error + (string \<rightharpoonup> DayStats)" where
  "addWaterStats gmtOffset stats log' =
     (case History_getGMT3DateString gmtOffset (WaterLog.timestamp log') of
        Inl e \<Rightarrow> Inl e
      | Inr day \<Rightarrow>
          (let s = (case stats day of None \<Rightarrow> zeroStats | Some s \<Rightarrow> s) in
           Inr (stats(day \<mapsto> s\<lparr>water := water s + amount log'\<rparr>))))"

definition dailyStats ::
  "int \<Rightarrow> LoggedMeal list \<Rightarrow> WaterLog list \<Rightarrow> js_error + (string \<rightharpoonup> DayStats)" where
  "dailyStats gmtOffset meals' waterLogs' =
     (case forEachE (addMealStats gmtOffset) meals' Map.empty of
        Inl e \<Rightarrow> Inl e
      | Inr stats \<Rightarrow> forEachE (addWaterStats gmtOffset) waterLogs' stats)"

text \<open>\<^verbatim>\<open>dailyStats[currentDateStr] || { calories: 0, protein: 0, carbs: 0, fat: 0, water: 0 }\<close>\<close>

definition dayStats :: "(string \<rightharpoonup> DayStats) \<Rightarrow> string \<Rightarrow> DayStats" where
  "dayStats stats currentDateStr =
     (case stats currentDateStr of None \<Rightarrow> zeroStats | Some s \<Rightarrow> s)"

text \<open>
  One chart point; the locale-formatted axis label \<open>name\<close> is display only and left out.
\<close>

record ChartPoint =
  calories :: real
  fullDate :: string

text \<open>
  The body of the loop of \<open>renderChartView\<close> for index \<open>i\<close>, on the loop variables
  \<open>(data, totalCals, daysTracked)\<close>; \<^verbatim>\<open>dailyStats[dStr] || { calories: 0 }\<close> reads
  only the energy field.
\<close>

definition chartStep ::
  "(int \<Rightarrow> int) \<Rightarrow> (int \<Rightarrow> int) \<Rightarrow> (string \<rightharpoonup> DayStats) \<Rightarrow> string \<Rightarrow> nat
   \<Rightarrow> ChartPoint list \<times> real \<times> nat \<Rightarrow> js_error + ChartPoint list \<times> real \<times> nat" where
  "chartStep tzaUTC tzaLocal stats currentSystemDateStr i acc =
     (case acc of (data, totalCals, daysTracked) \<Rightarrow>
        (let d = getTargetDate tzaUTC tzaLocal currentSystemDateStr (- int i) in
         case dateStr d of
           Inl e \<Rightarrow> Inl e
         | Inr dStr \<Rightarrow>
             (let c = (case stats dStr of None \<Rightarrow> 0 | Some s \<Rightarrow> DayStats.calories s);
                  point = \<lparr>calories = c, fullDate = dStr\<rparr>
              in Inr (if c > 0 then (data @ [point], totalCals + c, daysTracked + 1)
                      else (data @ [point], totalCals, daysTracked)))))"

text \<open>\<^verbatim>\<open>for (let i = days - 1; i >= 0; i--)\<close>: \<open>chartLoop f days\<close> runs \<open>i = days - 1, \<dots>, 0\<close>.\<close>

fun chartLoop :: "(nat \<Rightarrow> 's \<Rightarrow> js_error + 's) \<Rightarrow> nat \<Rightarrow> 's \<Rightarrow> js_error + 's" where
  "chartLoop f 0 acc = Inr acc"
| "chartLoop f (Suc i) acc =
     (case f i acc of Inl e \<Rightarrow> Inl e | Inr acc' \<Rightarrow> chartLoop f i acc')"

text \<open>The chart data and \<open>avgCals\<close> computed by \<open>renderChartView(days)\<close>.\<close>

definition renderChartView ::
  "(int \<Rightarrow> int) \<Rightarrow> (int \<Rightarrow> int) \<Rightarrow> (string \<rightharpoonup> DayStats) \<Rightarrow> string \<Rightarrow> nat
   \<Rightarrow> js_error + ChartPoint list \<times> int" where
  "renderChartView tzaUTC tzaLocal stats currentSystemDateStr days =
     (case chartLoop (chartStep tzaUTC tzaLocal stats currentSystemDateStr) days ([], 0, 0) of
        Inl e \<Rightarrow> Inl e
      | Inr (data, totalCals, daysTracked) \<Rightarrow>
          Inr (data, if daysTracked > 0 then Math_round (totalCals / real daysTracked)
                     else 0))"

section \<open>services/geminiService.ts: the estimation collaborator\<close>

text \<open>
  The generative model is outside the program.  It is a parameter \<open>genAI\<close> that gives,
  for the \<open>k\<close>-th request made so far, either a thrown error or a response whose text
  may be absent; \<^verbatim>\<open>JSON.parse\<close> is a parameter too, giving a SyntaxError or the parsed
  value (\<open>None\<close> for a falsy value such as \<^verbatim>\<open>null\<close>; the cast to \<open>MealAnalysis\<close> is
  unchecked in the source).  The record \<open>World\<close> logs every request sent, so that a
  retry would show as a second entry, and what was written to the console and shown
  in alert dialogs.  The response schema constant is not part of the model.
\<close>

datatype Part = inlineData string string | text_part string

record GenerateContentRequest =
  model :: string
  parts :: "Part list"
  responseMimeType :: string
  systemInstruction :: string

record GenerateContentResponse =
  text' :: "string option"

record World =
  calls :: "GenerateContentRequest list"
  console :: "string list"
  alerts :: "string list"

type_synonym GenAI = "nat \<Rightarrow> GenerateContentRequest \<Rightarrow> js_error + GenerateContentResponse"

type_synonym JSONParse = "string \<Rightarrow> js_error + MealAnalysis option"

definition generateContent ::
  "GenAI \<Rightarrow> GenerateContentRequest \<Rightarrow> World
   \<Rightarrow> (js_error + GenerateContentResponse) \<times> World" where
  "generateContent genAI req w = (genAI (length (calls w)) req, w\<lparr>calls := calls w @ [req]\<rparr>)"

text \<open>\<^verbatim>\<open>base64Image.replace(/^data:image\/(png|jpeg|jpg|webp);base64,/, "")\<close>\<close>

definition cleanBase64 :: "string \<Rightarrow> string" where
  "cleanBase64 base64Image =
     (case filter (\<lambda>h. take (length h) base64Image = h)
             [''data:image/png;base64,'', ''data:image/jpeg;base64,'',
              ''data:image/jpg;base64,'', ''data:image/webp;base64,''] of
        [] \<Rightarrow> base64Image
      | h # _ \<Rightarrow> drop (length h) base64Image)"

definition imageRequest :: "string \<Rightarrow> GenerateContentRequest" where
  "imageRequest base64Image =
     \<lparr>model = ''gemini-2.5-flash'',
      parts = [inlineData (cleanBase64 base64Image) ''image/jpeg'',
               text_part (''Analyze this image of food. Identify the meal, break down ''
                 @ ''the visible components, estimate the portion sizes and calculate ''
                 @ ''the approximate nutritional content.'')],
      responseMimeType = ''application/json'',
      systemInstruction = ''You are an expert nutritionist. Be conservative and realistic ''
        @ ''with calorie estimates. If the image is not food, return a mealName of ''
        @ [CHR 0x27] @ ''Unknown'' @ [CHR 0x27] @ '' and 0 calories.''\<rparr>"

definition textRequest :: "string \<Rightarrow> GenerateContentRequest" where
  "textRequest description =
     \<lparr>model = ''gemini-2.5-flash'',
      parts = [text_part (''Analyze this meal description or ingredient list: ''
                 @ [CHR 0x22] @ description @ [CHR 0x22]
                 @ ''. Identify the items, estimate standard portion sizes if not ''
                 @ ''specified, and calculate the approximate nutritional content.'')],
      responseMimeType = ''application/json'',
      systemInstruction = ''You are an expert nutritionist. Provide realistic calorie ''
        @ ''estimates for the described food items.''\<rparr>"

text \<open>
  The tail both functions share:
  \<^verbatim>\<open>if (response.text) return JSON.parse(response.text); else throw new Error(...)\<close>.
  An empty text is falsy, like an absent one.
\<close>

definition parseResponse ::
  "JSONParse \<Rightarrow> GenerateContentResponse \<Rightarrow> js_error + MealAnalysis option" where
  "parseResponse JSON_parse response =
     (case text' response of
        Some t \<Rightarrow> if t \<noteq> [] then JSON_parse t
                  else Inl (Error ''No response text from Gemini'')
      | None \<Rightarrow> Inl (Error ''No response text from Gemini''))"

definition analyzeMealImage ::
  "GenAI \<Rightarrow> JSONParse \<Rightarrow> string \<Rightarrow> World \<Rightarrow> (js_error + MealAnalysis option) \<times> World" where
  "analyzeMealImage genAI JSON_parse base64Image w =
     (case generateContent genAI (imageRequest base64Image) w of
        (r, w1) \<Rightarrow>
          (case (case r of Inl e \<Rightarrow> Inl e
                 | Inr response \<Rightarrow> parseResponse JSON_parse response) of
             Inl error \<Rightarrow>
               (Inl error, w1\<lparr>console := console w1 @ [''Gemini Analysis Error:'']\<rparr>)
           | Inr a \<Rightarrow> (Inr a, w1)))"

definition analyzeMealText ::
  "GenAI \<Rightarrow> JSONParse \<Rightarrow> string \<Rightarrow> World \<Rightarrow> (js_error + MealAnalysis option) \<times> World" where
  "analyzeMealText genAI JSON_parse description w =
     (case generateContent genAI (textRequest description) w of
        (r, w1) \<Rightarrow>
          (case (case r of Inl e \<Rightarrow> Inl e
                 | Inr response \<Rightarrow> parseResponse JSON_parse response) of
             Inl error \<Rightarrow>
               (Inl error, w1\<lparr>console := console w1 @ [''Gemini Text Analysis Error:'']\<rparr>)
           | Inr a \<Rightarrow> (Inr a, w1)))"

section \<open>components/AddMeal.tsx: analysis and saving\<close>

record AddMeal =
  mode :: InputMode
  imagePreview :: "string option"
  textInput :: string
  isAnalyzing :: bool
  analysis :: "MealAnalysis option"

definition AddMeal_init :: "InputMode \<Rightarrow> AddMeal" where
  "AddMeal_init initialMode =
     \<lparr>mode = initialMode, imagePreview = None, textInput = [], isAnalyzing = False,
      analysis = None\<rparr>"

definition analyzeImage ::
  "GenAI \<Rightarrow> JSONParse \<Rightarrow> string \<Rightarrow> AddMeal \<times> World \<Rightarrow> AddMeal \<times> World" where
  "analyzeImage genAI JSON_parse base64 s =
     (case s of (am, w) \<Rightarrow>
        (let am1 = am\<lparr>isAnalyzing := True, analysis := None\<rparr> in
         case analyzeMealImage genAI JSON_parse base64 w of
           (Inr result, w1) \<Rightarrow> (am1\<lparr>analysis := result, isAnalyzing := False\<rparr>, w1)
         | (Inl error, w1) \<Rightarrow>
             (am1\<lparr>isAnalyzing := False\<rparr>,
              w1\<lparr>console := console w1 @ [''error''],
                 alerts := alerts w1 @ [''Failed to analyze image. Please try again.'']\<rparr>)))"

text \<open>
  \<open>handleFileChange\<close> once the file is read: \<open>result\<close> is the data URL (the read is
  taken to succeed); \<open>None\<close> is an event without a file.
\<close>

definition handleFileChange ::
  "GenAI \<Rightarrow> JSONParse \<Rightarrow> string option \<Rightarrow> AddMeal \<times> World \<Rightarrow> AddMeal \<times> World" where
  "handleFileChange genAI JSON_parse file s =
     (case file of
        None \<Rightarrow> s
      | Some result \<Rightarrow>
          (case s of (am, w) \<Rightarrow>
             analyzeImage genAI JSON_parse result (am\<lparr>imagePreview := Some result\<rparr>, w)))"

definition isWhiteSpace :: "char \<Rightarrow> bool" where
  "isWhiteSpace c = (c \<in> set [CHR '' '', CHR 0x09, CHR 0x0A, CHR 0x0B, CHR 0x0C, CHR 0x0D])"

definition String_trim :: "string \<Rightarrow> string" where
  "String_trim s = rev (dropWhile isWhiteSpace (rev (dropWhile isWhiteSpace s)))"

definition handleTextAnalyze ::
  "GenAI \<Rightarrow> JSONParse \<Rightarrow> AddMeal \<times> World \<Rightarrow> AddMeal \<times> World" where
  "handleTextAnalyze genAI JSON_parse s =
     (case s of (am, w) \<Rightarrow>
        if String_trim (textInput am) = [] then s
        else
          (let am1 = am\<lparr>isAnalyzing := True, analysis := None\<rparr> in
           case analyzeMealText genAI JSON_parse (textInput am) w of
             (Inr result, w1) \<Rightarrow> (am1\<lparr>analysis := result, isAnalyzing := False\<rparr>, w1)
           | (Inl error, w1) \<Rightarrow>
               (am1\<lparr>isAnalyzing := False\<rparr>,
                w1\<lparr>console := console w1 @ [''error''],
                   alerts := alerts w1 @ [''Failed to analyze text. Please try again.'']\<rparr>)))"

definition reset :: "AddMeal \<Rightarrow> AddMeal" where
  "reset am = am\<lparr>imagePreview := None, analysis := None, textInput := []\<rparr>"

text \<open>
  The button "Save Meal to Log" exists only inside \<open>renderAnalysisResult\<close>, in the branch
  \<^verbatim>\<open>isAnalyzing ? ... : analysis ? ... : ...\<close>; that panel is rendered in camera mode
  when \<open>imagePreview\<close> is truthy and in text mode when \<open>analysis\<close> is.  Its handler is
  \<^verbatim>\<open>onSave(analysis, imagePreview || '')\<close>, and \<open>App\<close> passes \<open>handleSaveMeal\<close> as \<open>onSave\<close>.
\<close>

definition analysisPanelRendered :: "AddMeal \<Rightarrow> bool" where
  "analysisPanelRendered am =
     (case mode am of
        camera_mode \<Rightarrow> (case imagePreview am of None \<Rightarrow> False | Some p \<Rightarrow> p \<noteq> [])
      | text_mode \<Rightarrow> analysis am \<noteq> None)"

definition saveButtonRendered :: "AddMeal \<Rightarrow> bool" where
  "saveButtonRendered am =
     (analysisPanelRendered am \<and> \<not> isAnalyzing am \<and> analysis am \<noteq> None)"

definition clickSave :: "string \<Rightarrow> int \<Rightarrow> AddMeal \<Rightarrow> App \<Rightarrow> App" where
  "clickSave newId now am st =
     (if saveButtonRendered am then
        (case analysis am of
           None \<Rightarrow> st
         | Some a \<Rightarrow>
             handleSaveMeal newId now a
               (case imagePreview am of None \<Rightarrow> [] | Some p \<Rightarrow> p) st)
      else st)"

section \<open>Notions used to state the properties\<close>

text \<open>
  \<open>civilDay t\<close> numbers the \<open>[00:00, 24:00)\<close> window of civil time at UTC+3 that holds
  the timestamp \<open>t\<close>; \<open>windowStart n\<close> is the timestamp at which window \<open>n\<close> opens, and
  \<open>isBoundary t\<close> says that \<open>t\<close> is such an instant.  \<open>validTimestamp t\<close> says that
  \<open>t\<close>, shifted by three hours, is a time value a Date can hold.
\<close>

definition civilDay :: "int \<Rightarrow> int" where
  "civilDay t = (t + 10800000) div 86400000"

definition windowStart :: "int \<Rightarrow> int" where
  "windowStart n = n * 86400000 - 10800000"

definition isBoundary :: "int \<Rightarrow> bool" where
  "isBoundary t = ((t + 10800000) mod 86400000 = 0)"

definition validTimestamp :: "int \<Rightarrow> bool" where
  "validTimestamp t = (\<bar>t + 10800000\<bar> \<le> 8640000000000000)"

text \<open>The key of civil day number \<open>n\<close>, and the day numbers a Date can hold.\<close>

definition dayKey :: "int \<Rightarrow> string" where
  "dayKey n = isoDate (n * 86400000)"

definition validDay :: "int \<Rightarrow> bool" where
  "validDay n = (\<bar>n\<bar> \<le> 100000000)"

text \<open>The order of two day keys by the dates they denote.\<close>

definition key_le :: "string \<Rightarrow> string \<Rightarrow> bool" where
  "key_le k1 k2 = (case (Date_parse k1, Date_parse k2) of
                     (Some a, Some b) \<Rightarrow> a \<le> b | _ \<Rightarrow> False)"

text \<open>Successive ticks of the interval, stopping at the first exception.\<close>

fun checkDates :: "int list \<Rightarrow> App \<Rightarrow> js_error + App" where
  "checkDates [] st = Inr st"
| "checkDates (t # ts) st =
     (case checkDate t st of Inl e \<Rightarrow> Inl e | Inr st' \<Rightarrow> checkDates ts st')"

text \<open>The \<open>k\<close> civil-day boundaries that follow civil day \<open>n\<close>.\<close>

definition boundariesAfter :: "int \<Rightarrow> nat \<Rightarrow> int list" where
  "boundariesAfter n k = map (\<lambda>i. windowStart (n + 1 + int i)) [0..<k]"

text \<open>
  The states the application can be in: the first render, then any sequence of ticks
  and handler calls.
\<close>

inductive reachable :: "App \<Rightarrow> bool" where
  reach_init: "App_init now = Inr st \<Longrightarrow> reachable st"
| reach_checkDate: "reachable st \<Longrightarrow> checkDate now st = Inr st' \<Longrightarrow> reachable st'"
| reach_endDay: "reachable st \<Longrightarrow> reachable (handleManualEndDay st)"
| reach_reset: "reachable st \<Longrightarrow> reachable (state_after (resetDayCounter now st))"
| reach_saveMeal: "reachable st \<Longrightarrow> reachable (handleSaveMeal newId now a url st)"
| reach_addWater: "reachable st \<Longrightarrow> reachable (handleAddWater newId now amt st)"
| reach_calc: "reachable st \<Longrightarrow> reachable (snd (calculateRecommendedCalories st))"

text \<open>
  The period of \<open>renderChartView\<close> as a list of day keys, oldest first, and the average
  over the tracked days of a list of daily energy totals, both written as the
  specification words them.
\<close>

fun sequenceE :: "(js_error + 'a) list \<Rightarrow> js_error + 'a list" where
  "sequenceE [] = Inr []"
| "sequenceE (x # xs) =
     (case x of Inl e \<Rightarrow> Inl e
      | Inr a \<Rightarrow> (case sequenceE xs of Inl e \<Rightarrow> Inl e | Inr as \<Rightarrow> Inr (a # as)))"

definition periodKeys ::
  "(int \<Rightarrow> int) \<Rightarrow> (int \<Rightarrow> int) \<Rightarrow> string \<Rightarrow> nat \<Rightarrow> js_error + string list" where
  "periodKeys tzaUTC tzaLocal cur days =
     sequenceE (map (\<lambda>i. dateStr (getTargetDate tzaUTC tzaLocal cur (- int i)))
                    (rev [0..<days]))"

definition caloriesOn :: "(string \<rightharpoonup> DayStats) \<Rightarrow> string \<Rightarrow> real" where
  "caloriesOn stats k = (case stats k of None \<Rightarrow> 0 | Some s \<Rightarrow> DayStats.calories s)"

definition averagePerTrackedDay :: "real list \<Rightarrow> int" where
  "averagePerTrackedDay cals =
     (let tracked = filter (\<lambda>c. 0 < c) cals in
      if tracked = [] then 0 else Math_round (sum_list tracked / real (length tracked)))"

text \<open>A concrete state, as after a first render on 14 November 2023, for examples.\<close>

definition exampleApp :: App where
  "exampleApp = \<lparr>currentView = DASHBOARD, meals = [], waterLogs = [], goal = DEFAULT_GOAL,
     addMealInitialMode = camera_mode, tempGoal = DEFAULT_GOAL, dayOffset = 0,
     dayCount = 1, lastRealDateStr = ''2023-11-14''\<rparr>"

text \<open>Two meals, one on each side of midnight of 15 November 2023, and a glass of water.\<close>

definition exampleLunch :: LoggedMeal where
  "exampleLunch = \<lparr>mealName = ''Lunch'', items = [], totalCalories = 600,
     macronutrients = \<lparr>Macronutrients.protein = 30, Macronutrients.carbs = 50,
                        Macronutrients.fat = 20\<rparr>,
     confidenceScore = 0.9, LoggedMeal.id' = ''m1'', LoggedMeal.timestamp = 1699995599999,
     imageUrl = None\<rparr>"

definition exampleDinner :: LoggedMeal where
  "exampleDinner = \<lparr>mealName = ''Dinner'', items = [], totalCalories = 900,
     macronutrients = \<lparr>Macronutrients.protein = 40, Macronutrients.carbs = 90,
                        Macronutrients.fat = 30\<rparr>,
     confidenceScore = 0.8, LoggedMeal.id' = ''m2'', LoggedMeal.timestamp = 1699995600000,
     imageUrl = None\<rparr>"

definition exampleWater :: WaterLog where
  "exampleWater = \<lparr>id' = ''w1'', timestamp = 1699995600001, amount = 250\<rparr>"

section \<open>Calendar arithmetic\<close>

lemma div_succ_int:
  fixes x k :: int
  assumes "0 < k"
  shows "(x + 1) div k = (if (x + 1) mod k = 0 then x div k + 1 else x div k)"
proof (cases "x mod k + 1 = k")
  case True
  have "x + 1 = k * (x div k) + (x mod k + 1)" by simp
  also have "\<dots> = k * (x div k) + k" using True by simp
  also have "\<dots> = k * (x div k + 1) + 0" by (simp add: algebra_simps)
  finally have e: "x + 1 = k * (x div k + 1) + 0" .
  have "(x + 1) div k = x div k + 1" by (rule int_div_pos_eq[OF e]) (use assms in auto)
  moreover have "(x + 1) mod k = 0" by (rule int_mod_pos_eq[OF e]) (use assms in auto)
  ultimately show ?thesis by simp
next
  case False
  have r: "0 \<le> x mod k" "x mod k < k" using assms by auto
  have e: "x + 1 = k * (x div k) + (x mod k + 1)" by simp
  have "(x + 1) div k = x div k" by (rule int_div_pos_eq[OF e]) (use r False in auto)
  moreover have "(x + 1) mod k = x mod k + 1" by (rule int_mod_pos_eq[OF e]) (use r False in auto)
  ultimately show ?thesis using r by simp
qed

lemma mod_100_4: "(y::int) mod 100 = 0 \<Longrightarrow> y mod 4 = 0"
proof -
  assume "y mod 100 = 0"
  then have "100 dvd y" by (simp add: dvd_eq_mod_eq_0)
  moreover have "(4::int) dvd 100" by simp
  ultimately have "4 dvd y" by (rule dvd_trans[rotated])
  then show ?thesis by (simp add: dvd_eq_mod_eq_0)
qed

lemma mod_400_100: "(y::int) mod 400 = 0 \<Longrightarrow> y mod 100 = 0"
proof -
  assume "y mod 400 = 0"
  then have "400 dvd y" by (simp add: dvd_eq_mod_eq_0)
  moreover have "(100::int) dvd 400" by simp
  ultimately have "100 dvd y" by (rule dvd_trans[rotated])
  then show ?thesis by (simp add: dvd_eq_mod_eq_0)
qed

lemma DayFromYear_Suc: "DayFromYear (y + 1) = DayFromYear y + DaysInYear y"
proof -
  have a: "(y + 1 - 1969) div 4 = (y - 1969) div 4 + (if y mod 4 = 0 then 1 else 0)"
  proof -
    have "(y - 1969 + 1) mod 4 = y mod 4" by algebra
    moreover have "y + 1 - 1969 = y - 1969 + 1" by simp
    ultimately show ?thesis using div_succ_int[of 4 "y - 1969"] by (simp only: split: if_splits) simp
  qed
  have b: "(y + 1 - 1901) div 100 = (y - 1901) div 100 + (if y mod 100 = 0 then 1 else 0)"
  proof -
    have "(y - 1901 + 1) mod 100 = y mod 100" by algebra
    moreover have "y + 1 - 1901 = y - 1901 + 1" by simp
    ultimately show ?thesis using div_succ_int[of 100 "y - 1901"] by (simp only: split: if_splits) simp
  qed
  have c: "(y + 1 - 1601) div 400 = (y - 1601) div 400 + (if y mod 400 = 0 then 1 else 0)"
  proof -
    have "(y - 1601 + 1) mod 400 = y mod 400" by algebra
    moreover have "y + 1 - 1601 = y - 1601 + 1" by simp
    ultimately show ?thesis using div_succ_int[of 400 "y - 1601"] by (simp only: split: if_splits) simp
  qed
  show ?thesis unfolding DayFromYear_def DaysInYear_def a b c
    using mod_100_4[of y] mod_400_100[of y] by (simp split: if_splits)
qed

lemma div_floor_bounds:
  fixes x k :: int
  assumes "0 < k"
  shows "k * (x div k) \<le> x" and "x \<le> k * (x div k) + (k - 1)"
proof -
  have e: "x = k * (x div k) + x mod k" by simp
  have r: "0 \<le> x mod k" "x mod k < k" using assms by auto
  show "k * (x div k) \<le> x" using e r by linarith
  show "x \<le> k * (x div k) + (k - 1)" using e r by linarith
qed

lemma DayFromYear_lower: "146097 * (y - 1970) - 506 \<le> 400 * DayFromYear y"
proof -
  define a where "a = (y - 1969) div 4"
  define b where "b = (y - 1901) div 100"
  define c where "c = (y - 1601) div 400"
  have a: "y - 1969 \<le> 4 * a + 3" unfolding a_def using div_floor_bounds(2)[of 4 "y - 1969"] by simp
  have b: "100 * b \<le> y - 1901" unfolding b_def using div_floor_bounds(1)[of 100 "y - 1901"] by simp
  have c: "y - 1601 \<le> 400 * c + 399" unfolding c_def using div_floor_bounds(2)[of 400 "y - 1601"] by simp
  have d: "DayFromYear y = 365 * (y - 1970) + a - b + c"
    by (simp add: DayFromYear_def a_def b_def c_def)
  show ?thesis using a b c unfolding d by (simp add: algebra_simps)
qed

lemma DayFromYear_upper: "400 * DayFromYear y \<le> 146097 * (y - 1970) + 589"
proof -
  define a where "a = (y - 1969) div 4"
  define b where "b = (y - 1901) div 100"
  define c where "c = (y - 1601) div 400"
  have a: "4 * a \<le> y - 1969" unfolding a_def using div_floor_bounds(1)[of 4 "y - 1969"] by simp
  have b: "y - 1901 \<le> 100 * b + 99" unfolding b_def using div_floor_bounds(2)[of 100 "y - 1901"] by simp
  have c: "400 * c \<le> y - 1601" unfolding c_def using div_floor_bounds(1)[of 400 "y - 1601"] by simp
  have d: "DayFromYear y = 365 * (y - 1970) + a - b + c"
    by (simp add: DayFromYear_def a_def b_def c_def)
  show ?thesis using a b c unfolding d by (simp add: algebra_simps)
qed

lemma TimeFromYear_le_iff: "TimeFromYear y \<le> t \<longleftrightarrow> DayFromYear y \<le> Day t"
proof -
  have e: "t = msPerDay * (t div msPerDay) + t mod msPerDay" by simp
  have r: "0 \<le> t mod msPerDay" "t mod msPerDay < msPerDay" by (auto simp: msPerDay_def)
  show ?thesis
  proof
    assume "TimeFromYear y \<le> t"
    then have "msPerDay * DayFromYear y < msPerDay * (t div msPerDay) + msPerDay"
      using e r unfolding TimeFromYear_def by linarith
    then have "msPerDay * DayFromYear y < msPerDay * (t div msPerDay + 1)"
      by (simp add: algebra_simps)
    then have "DayFromYear y < t div msPerDay + 1"
      by (simp add: msPerDay_def)
    then show "DayFromYear y \<le> Day t" by (simp add: Day_def)
  next
    assume "DayFromYear y \<le> Day t"
    then have "msPerDay * DayFromYear y \<le> msPerDay * (t div msPerDay)"
      by (simp add: Day_def msPerDay_def)
    then show "TimeFromYear y \<le> t" using e r unfolding TimeFromYear_def by linarith
  qed
qed

lemma YearFromTime_Day:
  "YearFromTime t = (let y = 1970 + (400 * Day t) div 146097 in
     if DayFromYear (y + 1) \<le> Day t then y + 1 else if DayFromYear y \<le> Day t then y else y - 1)"
  unfolding YearFromTime_def TimeFromYear_le_iff ..

lemma YearFromTime_bounds:
  "DayFromYear (YearFromTime t) \<le> Day t" "Day t < DayFromYear (YearFromTime t + 1)"
proof -
  define n where "n = Day t"
  define y where "y = 1970 + (400 * n) div 146097"
  have q: "146097 * (y - 1970) \<le> 400 * n" "400 * n \<le> 146097 * (y - 1970) + 146096"
    using div_floor_bounds[of 146097 "400 * n"] by (simp_all add: y_def)
  have Y: "YearFromTime t = (if DayFromYear (y + 1) \<le> n then y + 1 else if DayFromYear y \<le> n then y else y - 1)"
    unfolding YearFromTime_Day n_def y_def Let_def ..
  have lo: "DayFromYear (y - 1) \<le> n"
    using DayFromYear_upper[of "y - 1"] q by simp
  have hi: "n < DayFromYear (y + 2)"
    using DayFromYear_lower[of "y + 2"] q by simp
  show "DayFromYear (YearFromTime t) \<le> Day t"
    unfolding Y n_def[symmetric] using lo by auto
  show "Day t < DayFromYear (YearFromTime t + 1)"
    unfolding Y n_def[symmetric] using hi by (auto simp: algebra_simps)
qed

lemma DayFromYear_strict_mono: "y < z \<Longrightarrow> DayFromYear y < DayFromYear z"
  using DayFromYear_upper[of y] DayFromYear_lower[of z] by simp

lemma YearFromTime_greatest:
  "TimeFromYear (YearFromTime t) \<le> t" "TimeFromYear y \<le> t \<Longrightarrow> y \<le> YearFromTime t"
proof -
  show "TimeFromYear (YearFromTime t) \<le> t"
    unfolding TimeFromYear_le_iff by (rule YearFromTime_bounds)
  assume "TimeFromYear y \<le> t"
  then have "DayFromYear y \<le> Day t" by (simp only: TimeFromYear_le_iff)
  then have "DayFromYear y < DayFromYear (YearFromTime t + 1)"
    using YearFromTime_bounds(2)[of t] by linarith
  then have "\<not> YearFromTime t + 1 \<le> y"
    using DayFromYear_strict_mono[of "YearFromTime t + 1" y] by (cases "YearFromTime t + 1 = y") auto
  then show "y \<le> YearFromTime t" by simp
qed

lemma DayWithinYear_bounds: "0 \<le> DayWithinYear t" "DayWithinYear t < DaysInYear (YearFromTime t)"
  using YearFromTime_bounds[of t] unfolding DayWithinYear_def DayFromYear_Suc by simp_all

lemma InLeapYear_cases: "InLeapYear t = 0 \<or> InLeapYear t = 1"
  by (simp add: InLeapYear_def)

lemma DaysInYear_InLeapYear: "DaysInYear (YearFromTime t) = 365 + InLeapYear t"
  by (simp add: InLeapYear_def DaysInYear_def)

lemma MonthFromTime_range: "0 \<le> MonthFromTime t" "MonthFromTime t \<le> 11"
  by (simp_all add: MonthFromTime_def Let_def)

lemma DateFromTime_range: "1 \<le> DateFromTime t" "DateFromTime t \<le> 31"
proof -
  define d where "d = DayWithinYear t"
  define l where "l = InLeapYear t"
  have dl: "0 \<le> d" "d < 365 + l" "l = 0 \<or> l = 1"
    using DayWithinYear_bounds[of t] InLeapYear_cases[of t]
    by (simp_all add: d_def l_def DaysInYear_InLeapYear)
  show "1 \<le> DateFromTime t"
    unfolding DateFromTime_def MonthFromTime_def d_def[symmetric] l_def[symmetric] Let_def
    using dl by (auto split: if_splits)
  show "DateFromTime t \<le> 31"
    unfolding DateFromTime_def MonthFromTime_def d_def[symmetric] l_def[symmetric] Let_def
    using dl by (auto split: if_splits)
qed

lemma DayFromMonth_MonthFromTime:
  "DayFromMonth (MonthFromTime t) (InLeapYear t) + DateFromTime t - 1 = DayWithinYear t"
  unfolding DateFromTime_def MonthFromTime_def DayFromMonth_def Let_def
  by (simp split: if_splits)

lemma MakeDay_roundtrip:
  "MakeDay (YearFromTime t) (MonthFromTime t) (DateFromTime t) = Day t"
proof -
  have m: "MonthFromTime t div 12 = 0" "MonthFromTime t mod 12 = MonthFromTime t"
    using MonthFromTime_range[of t] by simp_all
  have "MakeDay (YearFromTime t) (MonthFromTime t) (DateFromTime t)
        = DayFromYear (YearFromTime t) + (DayFromMonth (MonthFromTime t) (InLeapYear t) + DateFromTime t - 1)"
    unfolding MakeDay_def m Let_def by (simp add: InLeapYear_def)
  also have "\<dots> = Day t"
    unfolding DayFromMonth_MonthFromTime by (simp add: DayWithinYear_def)
  finally show ?thesis .
qed

lemma Day_range:
  assumes "\<bar>tv\<bar> \<le> 8640000000000000"
  shows "- 100000000 \<le> Day tv" "Day tv \<le> 100000000"
proof -
  have a: "(- 8640000000000000) div msPerDay \<le> tv div msPerDay"
    by (rule zdiv_mono1) (use assms in \<open>auto simp: msPerDay_def\<close>)
  have b: "tv div msPerDay \<le> 8640000000000000 div msPerDay"
    by (rule zdiv_mono1) (use assms in \<open>auto simp: msPerDay_def\<close>)
  show "- 100000000 \<le> Day tv" using a by (simp add: Day_def msPerDay_def)
  show "Day tv \<le> 100000000" using b by (simp add: Day_def msPerDay_def)
qed

lemma YearFromTime_range:
  assumes "\<bar>tv\<bar> \<le> 8640000000000000"
  shows "- 271821 \<le> YearFromTime tv" "YearFromTime tv \<le> 275760"
proof -
  note d = Day_range[OF assms]
  have "146097 * (YearFromTime tv - 1970) - 506 \<le> 400 * Day tv"
    using DayFromYear_lower[of "YearFromTime tv"] YearFromTime_bounds(1)[of tv] by simp
  then have "146097 * (YearFromTime tv - 1970) \<le> 40000000506" using d by simp
  then show "YearFromTime tv \<le> 275760" by simp
  have "400 * Day tv < 146097 * (YearFromTime tv + 1 - 1970) + 589"
    using DayFromYear_upper[of "YearFromTime tv + 1"] YearFromTime_bounds(2)[of tv] by simp
  then have "- 40000000589 < 146097 * (YearFromTime tv - 1969)" using d by simp
  then show "- 271821 \<le> YearFromTime tv" by simp
qed

lemma length_digits [simp]: "length (digits w n) = w"
  by (induction w arbitrary: n) simp_all

lemma lt10_cases: "(d::nat) < 10 \<Longrightarrow> d = 0 \<or> d = 1 \<or> d = 2 \<or> d = 3 \<or> d = 4 \<or> d = 5 \<or> d = 6 \<or> d = 7 \<or> d = 8 \<or> d = 9"
  by arith

lemma digit_val_digit_char: "d < 10 \<Longrightarrow> digit_val (digit_char d) = Some d"
  using lt10_cases[of d] by (auto simp: digit_val_def digit_char_def)

lemma digit_char_in: "d < 10 \<Longrightarrow> digit_char d \<in> set ''0123456789''"
  using lt10_cases[of d] by (auto simp: digit_char_def)

lemma set_digits: "set (digits w n) \<subseteq> set ''0123456789''"
proof (induction w arbitrary: n)
  case 0
  show ?case by simp
next
  case (Suc w)
  have "digit_char (n mod 10) \<in> set ''0123456789''" by (rule digit_char_in) simp
  with Suc[of "n div 10"] show ?case by simp
qed

lemma parse_nat_append:
  "parse_nat acc (xs @ ys) = (case parse_nat acc xs of None \<Rightarrow> None | Some a \<Rightarrow> parse_nat a ys)"
  by (induction xs arbitrary: acc) (simp_all split: option.splits)

lemma parse_nat_digits: "parse_nat acc (digits w n) = Some (acc * 10 ^ w + n mod 10 ^ w)"
proof (induction w arbitrary: n acc)
  case 0
  show ?case by simp
next
  case (Suc w)
  have m: "n mod (10 * 10 ^ w) = 10 * (n div 10 mod 10 ^ w) + n mod 10"
    by (rule mod_mult2_eq)
  show ?case
    by (simp add: parse_nat_append Suc digit_val_digit_char m algebra_simps)
qed

lemma parse_nat_digits0: "n < 10 ^ w \<Longrightarrow> parse_nat 0 (digits w n) = Some n"
  by (simp add: parse_nat_digits)

lemma split_T_0_isoString:
  "split_T_0 (isoDate tv @ ''T'' @ rest) = isoDate tv"
proof -
  have d: "\<And>w n. \<forall>c \<in> set (digits w n). c \<noteq> CHR ''T''"
    using set_digits by fastforce
  have "\<forall>c \<in> set (isoDate tv). c \<noteq> CHR ''T''"
    unfolding isoDate_def isoYear_def using d by (auto split: if_splits)
  then show ?thesis unfolding split_T_0_def by (simp add: takeWhile_append2)
qed

lemma parse_ymd_digits:
  assumes "y < 10 ^ w" "m < 100" "d < 100"
  shows "parse_ymd neg w (digits w y @ ''-'' @ digits 2 m @ ''-'' @ digits 2 d) =
     (if 1 \<le> m \<and> m \<le> 12 \<and> 1 \<le> d \<and> d \<le> 31 \<and> \<not> (neg \<and> y = 0)
      then TimeClip (MakeDate (MakeDay (if neg then - int y else int y) (int m - 1) (int d)) 0)
      else None)"
proof -
  define s where "s = digits w y @ ''-'' @ digits 2 m @ ''-'' @ digits 2 d"
  have len: "length s = w + 6" by (simp add: s_def)
  have n1: "s ! w = CHR ''-''" by (simp add: s_def nth_append)
  have n2: "s ! (w + 3) = CHR ''-''"
  proof -
    have "s = (digits w y @ ''-'' @ digits 2 m) @ ''-'' @ digits 2 d" by (simp add: s_def)
    moreover have "length (digits w y @ ''-'' @ digits 2 m) = w + 3" by simp
    ultimately show ?thesis by (metis nth_append_length append_Cons)
  qed
  have t1: "take w s = digits w y" by (simp add: s_def)
  have t2: "take 2 (drop (w + 1) s) = digits 2 m"
  proof -
    have "drop (w + 1) s = digits 2 m @ ''-'' @ digits 2 d"
      by (simp add: s_def drop_append)
    then show ?thesis by simp
  qed
  have t3: "drop (w + 4) s = digits 2 d"
  proof -
    have "s = (digits w y @ ''-'' @ digits 2 m @ ''-'') @ digits 2 d" by (simp add: s_def)
    moreover have "length (digits w y @ ''-'' @ digits 2 m @ ''-'') = w + 4" by simp
    ultimately show ?thesis by (metis append_eq_conv_conj)
  qed
  have p: "parse_nat 0 (digits w y) = Some y" "parse_nat 0 (digits 2 m) = Some m"
          "parse_nat 0 (digits 2 d) = Some d"
    using assms by (simp_all add: parse_nat_digits0)
  show ?thesis
    unfolding s_def[symmetric] parse_ymd_def len n1 n2 t1 t2 t3 p by simp
qed

lemma hd_digits_not_sign:
  assumes "0 < w"
  shows "hd (digits w n @ rest) \<noteq> CHR ''+''" "hd (digits w n @ rest) \<noteq> CHR ''-''"
proof -
  have ne: "digits w n \<noteq> []" using assms by (metis length_digits length_0_conv less_numeral_extra(3))
  then have "hd (digits w n @ rest) \<in> set (digits w n)" by simp
  then have h: "hd (digits w n @ rest) \<in> set ''0123456789''" using set_digits by blast
  show "hd (digits w n @ rest) \<noteq> CHR ''+''" using h by auto
  show "hd (digits w n @ rest) \<noteq> CHR ''-''" using h by auto
qed

lemma TimeClip_Day:
  assumes "\<bar>tv\<bar> \<le> 8640000000000000"
  shows "TimeClip (Day tv * msPerDay) = Some (Day tv * msPerDay)"
proof -
  have "\<bar>Day tv * msPerDay\<bar> \<le> 8640000000000000"
    using Day_range[OF assms] by (simp add: msPerDay_def abs_le_iff)
  then show ?thesis by (simp add: TimeClip_def)
qed

lemma Date_parse_isoDate:
  assumes "\<bar>tv\<bar> \<le> 8640000000000000"
  shows "Date_parse (isoDate tv) = Some (Day tv * msPerDay)"
proof -
  define Y where "Y = YearFromTime tv"
  define m where "m = nat (MonthFromTime tv + 1)"
  define d where "d = nat (DateFromTime tv)"
  have Yr: "- 271821 \<le> Y" "Y \<le> 275760" using YearFromTime_range[OF assms] by (simp_all add: Y_def)
  have mr: "1 \<le> m" "m \<le> 12" "int m - 1 = MonthFromTime tv"
    using MonthFromTime_range[of tv] by (simp_all add: m_def)
  have dr: "1 \<le> d" "d \<le> 31" "int d = DateFromTime tv"
    using DateFromTime_range[of tv] by (simp_all add: d_def)
  have lt: "m < 100" "d < 100" using mr dr by simp_all
  have res: "TimeClip (MakeDate (MakeDay Y (int m - 1) (int d)) 0) = Some (Day tv * msPerDay)"
    unfolding mr dr Y_def MakeDay_roundtrip MakeDate_def using TimeClip_Day[OF assms] by simp
  consider (four) "0 \<le> Y" "Y \<le> 9999" | (neg) "Y < 0" | (pos) "9999 < Y" by linarith
  then show ?thesis
  proof cases
    case four
    have iso: "isoDate tv = digits 4 (nat Y) @ ''-'' @ digits 2 m @ ''-'' @ digits 2 d"
      using four by (simp add: isoDate_def isoYear_def Y_def m_def d_def)
    have y: "nat Y < 10 ^ 4" using four by simp
    have "Date_parse (isoDate tv) = parse_ymd False 4 (isoDate tv)"
      unfolding iso Date_parse_def using hd_digits_not_sign[of 4 "nat Y"] by simp
    also have "\<dots> = TimeClip (MakeDate (MakeDay (int (nat Y)) (int m - 1) (int d)) 0)"
      unfolding iso parse_ymd_digits[OF y lt] using mr dr by simp
    finally show ?thesis using res four by simp
  next
    case neg
    have iso: "isoDate tv = CHR ''-'' # (digits 6 (nat \<bar>Y\<bar>) @ ''-'' @ digits 2 m @ ''-'' @ digits 2 d)"
      using neg by (simp add: isoDate_def isoYear_def Y_def m_def d_def)
    have y: "nat \<bar>Y\<bar> < 10 ^ 6" using neg Yr by simp
    have "Date_parse (isoDate tv) = parse_ymd True 6 (digits 6 (nat \<bar>Y\<bar>) @ ''-'' @ digits 2 m @ ''-'' @ digits 2 d)"
      unfolding iso Date_parse_def by simp
    also have "\<dots> = TimeClip (MakeDate (MakeDay (- int (nat \<bar>Y\<bar>)) (int m - 1) (int d)) 0)"
      unfolding parse_ymd_digits[OF y lt] using mr dr neg by simp
    finally show ?thesis using res neg by simp
  next
    case pos
    have iso: "isoDate tv = CHR ''+'' # (digits 6 (nat \<bar>Y\<bar>) @ ''-'' @ digits 2 m @ ''-'' @ digits 2 d)"
      using pos by (simp add: isoDate_def isoYear_def Y_def m_def d_def)
    have y: "nat \<bar>Y\<bar> < 10 ^ 6" using pos Yr by simp
    have "Date_parse (isoDate tv) = parse_ymd False 6 (digits 6 (nat \<bar>Y\<bar>) @ ''-'' @ digits 2 m @ ''-'' @ digits 2 d)"
      unfolding iso Date_parse_def by simp
    also have "\<dots> = TimeClip (MakeDate (MakeDay (int (nat \<bar>Y\<bar>)) (int m - 1) (int d)) 0)"
      unfolding parse_ymd_digits[OF y lt] using mr dr by simp
    finally show ?thesis using res pos by simp
  qed
qed

lemma isoDate_Day_cong: "Day t1 = Day t2 \<Longrightarrow> isoDate t1 = isoDate t2"
proof -
  assume e: "Day t1 = Day t2"
  have y: "YearFromTime t1 = YearFromTime t2" unfolding YearFromTime_Day e ..
  have l: "InLeapYear t1 = InLeapYear t2" unfolding InLeapYear_def y ..
  have w: "DayWithinYear t1 = DayWithinYear t2" unfolding DayWithinYear_def y e ..
  have m: "MonthFromTime t1 = MonthFromTime t2" unfolding MonthFromTime_def l w ..
  have d: "DateFromTime t1 = DateFromTime t2" unfolding DateFromTime_def l w m ..
  show ?thesis unfolding isoDate_def y m d ..
qed

lemma isoDate_eq_iff:
  assumes "\<bar>t1\<bar> \<le> 8640000000000000" "\<bar>t2\<bar> \<le> 8640000000000000"
  shows "isoDate t1 = isoDate t2 \<longleftrightarrow> Day t1 = Day t2"
proof
  assume "isoDate t1 = isoDate t2"
  then have "Date_parse (isoDate t1) = Date_parse (isoDate t2)" by simp
  then have "Day t1 * msPerDay = Day t2 * msPerDay"
    unfolding Date_parse_isoDate[OF assms(1)] Date_parse_isoDate[OF assms(2)] by simp
  then show "Day t1 = Day t2" by (simp add: msPerDay_def)
next
  assume "Day t1 = Day t2"
  then show "isoDate t1 = isoDate t2" by (rule isoDate_Day_cong)
qed

section \<open>Date bucketing\<close>

lemma civilDay_Day: "civilDay t = Day (t + 10800000)"
  by (simp add: civilDay_def Day_def msPerDay_def)

lemma split_T_0_isoDate: "split_T_0 (isoDate tv @ CHR ''T'' # rest) = isoDate tv"
  using split_T_0_isoString[of tv rest] by simp

lemma getGMT3DateString_valid:
  "validTimestamp t \<Longrightarrow> getGMT3DateString t = Inr (isoDate (t + 10800000))"
  by (simp add: getGMT3DateString_def GMT_OFFSET_HOURS_def Date_new_def TimeClip_def
      validTimestamp_def Date_toISOString_def split_T_0_isoDate)

lemma getGMT3DateString_invalid:
  "\<not> validTimestamp t \<Longrightarrow> getGMT3DateString t = Inl RangeError"
  by (simp add: getGMT3DateString_def GMT_OFFSET_HOURS_def Date_new_def TimeClip_def
      validTimestamp_def Date_toISOString_def)

lemma getGMT3DateString_eq_iff:
  assumes "validTimestamp t1" "validTimestamp t2"
  shows "getGMT3DateString t1 = getGMT3DateString t2 \<longleftrightarrow> civilDay t1 = civilDay t2"
proof -
  have "isoDate (t1 + 10800000) = isoDate (t2 + 10800000)
        \<longleftrightarrow> Day (t1 + 10800000) = Day (t2 + 10800000)"
    by (rule isoDate_eq_iff) (use assms in \<open>simp_all add: validTimestamp_def\<close>)
  then show ?thesis
    unfolding getGMT3DateString_valid[OF assms(1)] getGMT3DateString_valid[OF assms(2)]
      civilDay_Day by simp
qed

lemma History_getGMT3DateString_3:
  "History_getGMT3DateString GMT_OFFSET_HOURS t = getGMT3DateString t"
  by (simp add: History_getGMT3DateString_def getGMT3DateString_def GMT_OFFSET_HOURS_def)

lemma civilDay_mono: "t1 \<le> t2 \<Longrightarrow> civilDay t1 \<le> civilDay t2"
  unfolding civilDay_def by (rule zdiv_mono1) simp_all

lemma key_le_isoDate:
  assumes "\<bar>a\<bar> \<le> 8640000000000000" "\<bar>b\<bar> \<le> 8640000000000000"
  shows "key_le (isoDate a) (isoDate b) \<longleftrightarrow> Day a \<le> Day b"
  by (simp add: key_le_def Date_parse_isoDate[OF assms(1)] Date_parse_isoDate[OF assms(2)]
      msPerDay_def)

lemma civilDay_succ:
  "civilDay (t + 1) = (if isBoundary (t + 1) then civilDay t + 1 else civilDay t)"
  using div_succ_int[of 86400000 "t + 10800000"]
  by (simp add: civilDay_def isBoundary_def add.commute add.left_commute)

lemma civilDay_window:
  "(windowStart n \<le> t \<and> t < windowStart (n + 1)) \<longleftrightarrow> civilDay t = n"
proof -
  have b: "86400000 * ((t + 10800000) div 86400000) \<le> t + 10800000"
          "t + 10800000 \<le> 86400000 * ((t + 10800000) div 86400000) + (86400000 - 1)"
    using div_floor_bounds[of 86400000 "t + 10800000"] by simp_all
  show ?thesis
  proof
    assume a: "windowStart n \<le> t \<and> t < windowStart (n + 1)"
    then have "86400000 * n \<le> t + 10800000" "t + 10800000 < 86400000 * (n + 1)"
      by (simp_all add: windowStart_def algebra_simps)
    then have "n \<le> (t + 10800000) div 86400000" "(t + 10800000) div 86400000 < n + 1"
      using b by simp_all
    then show "civilDay t = n" by (simp add: civilDay_def)
  next
    assume "civilDay t = n"
    then show "windowStart n \<le> t \<and> t < windowStart (n + 1)"
      using b by (simp add: civilDay_def windowStart_def algebra_simps)
  qed
qed

text \<open>
  C2.  With the fixed offset of three hours, \<open>getGMT3DateString\<close> gives two timestamps
  the same key exactly when they lie in the same \<open>[00:00, 24:00)\<close> window of civil time
  at UTC+3 (the window \<open>[windowStart n, windowStart (n + 1))\<close> for some \<open>n\<close>), and it is
  monotone: for \<open>t1 \<le> t2\<close> the key of \<open>t1\<close> denotes a date no later than the key of
  \<open>t2\<close>.  A step of one millisecond that does not end on a civil-day boundary keeps the
  key, and the key changes between \<open>b - 1\<close> and \<open>b\<close> at every boundary \<open>b\<close>.  The copy of
  the function in the history view, called with the offset 3 that the application
  passes, is the same function.  The timestamps are those a Date can hold after the
  shift by three hours; on any other the function throws.
\<close>

theorem getGMT3DateString_buckets_civil_days:
  assumes "validTimestamp t1" "validTimestamp t2"
  shows "(getGMT3DateString t1 = getGMT3DateString t2 \<longleftrightarrow> civilDay t1 = civilDay t2)
    \<and> (civilDay t1 = civilDay t2 \<longleftrightarrow>
         (\<exists>n. windowStart n \<le> t1 \<and> t1 < windowStart (n + 1)
            \<and> windowStart n \<le> t2 \<and> t2 < windowStart (n + 1)))
    \<and> (t1 \<le> t2 \<longrightarrow>
         (\<exists>k1 k2. getGMT3DateString t1 = Inr k1 \<and> getGMT3DateString t2 = Inr k2
            \<and> key_le k1 k2))
    \<and> (validTimestamp t \<and> validTimestamp (t + 1) \<and> \<not> isBoundary (t + 1) \<longrightarrow>
         getGMT3DateString t = getGMT3DateString (t + 1))
    \<and> (validTimestamp (b - 1) \<and> validTimestamp b \<and> isBoundary b \<longrightarrow>
         getGMT3DateString (b - 1) \<noteq> getGMT3DateString b)
    \<and> History_getGMT3DateString GMT_OFFSET_HOURS t1 = getGMT3DateString t1"
proof (intro conjI impI)
  show "getGMT3DateString t1 = getGMT3DateString t2 \<longleftrightarrow> civilDay t1 = civilDay t2"
    by (rule getGMT3DateString_eq_iff[OF assms])
  show "civilDay t1 = civilDay t2 \<longleftrightarrow>
         (\<exists>n. windowStart n \<le> t1 \<and> t1 < windowStart (n + 1)
            \<and> windowStart n \<le> t2 \<and> t2 < windowStart (n + 1))"
    using civilDay_window[of _ t1] civilDay_window[of _ t2] by metis
  show "\<exists>k1 k2. getGMT3DateString t1 = Inr k1 \<and> getGMT3DateString t2 = Inr k2 \<and> key_le k1 k2"
    if "t1 \<le> t2"
  proof -
    have "Day (t1 + 10800000) \<le> Day (t2 + 10800000)"
      using civilDay_mono[OF that] by (simp add: civilDay_Day)
    then have "key_le (isoDate (t1 + 10800000)) (isoDate (t2 + 10800000))"
      using assms by (simp add: key_le_isoDate validTimestamp_def)
    then show ?thesis using assms by (simp add: getGMT3DateString_valid)
  qed
  show "getGMT3DateString t = getGMT3DateString (t + 1)"
    if "validTimestamp t \<and> validTimestamp (t + 1) \<and> \<not> isBoundary (t + 1)"
    using that by (simp add: getGMT3DateString_eq_iff civilDay_succ)
  show "getGMT3DateString (b - 1) \<noteq> getGMT3DateString b"
    if "validTimestamp (b - 1) \<and> validTimestamp b \<and> isBoundary b"
    using that civilDay_succ[of "b - 1"] by (simp add: getGMT3DateString_eq_iff)
  show "History_getGMT3DateString GMT_OFFSET_HOURS t1 = getGMT3DateString t1"
    by (rule History_getGMT3DateString_3)
qed


lemma getGMT3DateString_before_midnight: "getGMT3DateString 1699995599999 = Inr ''2023-11-14''"
  by code_simp
lemma getGMT3DateString_at_midnight: "getGMT3DateString 1699995600000 = Inr ''2023-11-15''"
  by code_simp
text \<open>
  An instance on 14 November 2023, ten seconds before and exactly at 21:00:00 UTC,
  which is midnight at UTC+3.
\<close>

theorem getGMT3DateString_buckets_witness:
  "validTimestamp 1699995590000 \<and> validTimestamp 1699995600000
   \<and> validTimestamp (1699995590000 + 1) \<and> validTimestamp (1699995600000 - 1)
   \<and> \<not> isBoundary (1699995590000 + 1) \<and> isBoundary 1699995600000
   \<and> getGMT3DateString 1699995590000 \<noteq> getGMT3DateString 1699995600000
   \<and> (\<exists>k1 k2. getGMT3DateString 1699995590000 = Inr k1
         \<and> getGMT3DateString 1699995600000 = Inr k2 \<and> key_le k1 k2)
   \<and> getGMT3DateString 1699995590000 = getGMT3DateString (1699995590000 + 1)
   \<and> getGMT3DateString (1699995600000 - 1) \<noteq> getGMT3DateString 1699995600000"
proof -
  have v: "validTimestamp 1699995590000" "validTimestamp 1699995600000"
    "validTimestamp (1699995590000 + 1)" "validTimestamp (1699995600000 - 1)"
    by (simp_all add: validTimestamp_def)
  have b: "\<not> isBoundary (1699995590000 + 1)" "isBoundary 1699995600000"
    by (simp_all add: isBoundary_def)
  have c: "civilDay 1699995590000 \<noteq> civilDay 1699995600000"
    by (simp add: civilDay_def)
  have o: "(1699995590000::int) \<le> 1699995600000" by simp
  note th = getGMT3DateString_buckets_civil_days[OF v(1) v(2), of 1699995590000 1699995600000]
  show ?thesis using th v b c o by blast
qed

section \<open>The virtual clock\<close>

lemma getGMT3DateString_dayKey:
  "validTimestamp t \<Longrightarrow> getGMT3DateString t = Inr (dayKey (civilDay t))"
proof -
  assume v: "validTimestamp t"
  have "Day (t + 10800000) = Day (civilDay t * 86400000)"
    by (simp add: civilDay_def Day_def msPerDay_def)
  then have "isoDate (t + 10800000) = dayKey (civilDay t)"
    unfolding dayKey_def by (rule isoDate_Day_cong)
  then show ?thesis by (simp add: getGMT3DateString_valid[OF v])
qed

lemma validDay_civilDay: "validTimestamp t \<Longrightarrow> validDay (civilDay t)"
  using Day_range[of "t + 10800000"]
  by (simp add: validTimestamp_def validDay_def civilDay_Day abs_le_iff)

lemma dayKey_eq_iff:
  assumes "validDay n" "validDay m"
  shows "dayKey n = dayKey m \<longleftrightarrow> n = m"
proof -
  have "isoDate (n * 86400000) = isoDate (m * 86400000) \<longleftrightarrow> Day (n * 86400000) = Day (m * 86400000)"
    by (rule isoDate_eq_iff) (use assms in \<open>simp_all add: validDay_def abs_le_iff\<close>)
  then show ?thesis by (simp add: dayKey_def Day_def msPerDay_def)
qed

lemma validTimestamp_windowStart: "validDay n \<Longrightarrow> validTimestamp (windowStart n)"
  by (simp add: validDay_def validTimestamp_def windowStart_def abs_le_iff)

lemma civilDay_windowStart: "civilDay (windowStart n) = n"
  by (simp add: civilDay_def windowStart_def)

lemma checkDate_Inr:
  "getGMT3DateString now = Inr k \<Longrightarrow>
   checkDate now st =
     Inr (if k \<noteq> lastRealDateStr st then
            (if dayOffset st > 0
             then st\<lparr>lastRealDateStr := k, dayOffset := max 0 (dayOffset st - 1)\<rparr>
             else st\<lparr>lastRealDateStr := k, dayCount := dayCount st + 1\<rparr>)
          else st)"
  by (simp add: checkDate_def)

lemma checkDate_Inl: "getGMT3DateString now = Inl e \<Longrightarrow> checkDate now st = Inl e"
  by (simp add: checkDate_def)

lemma checkDate_same_key:
  "getGMT3DateString now = Inr (lastRealDateStr st) \<Longrightarrow> checkDate now st = Inr st"
  by (simp add: checkDate_Inr)

text \<open>A check on a civil day other than the one last observed.\<close>

lemma checkDate_other_day:
  assumes "validDay n" "lastRealDateStr st = dayKey n" "validTimestamp now" "civilDay now \<noteq> n"
  shows "checkDate now st =
     Inr (if dayOffset st > 0
          then st\<lparr>lastRealDateStr := dayKey (civilDay now),
                  dayOffset := max 0 (dayOffset st - 1)\<rparr>
          else st\<lparr>lastRealDateStr := dayKey (civilDay now), dayCount := dayCount st + 1\<rparr>)"
proof -
  have "dayKey (civilDay now) \<noteq> dayKey n"
    using assms(4) dayKey_eq_iff[OF validDay_civilDay[OF assms(3)] assms(1)] by simp
  then show ?thesis
    using checkDate_Inr[OF getGMT3DateString_dayKey[OF assms(3)], of st] assms(2) by simp
qed

lemma checkDates_append:
  "checkDates (xs @ ys) st =
     (case checkDates xs st of Inl e \<Rightarrow> Inl e | Inr st' \<Rightarrow> checkDates ys st')"
  by (induction xs arbitrary: st) (simp_all split: sum.splits)

lemma boundariesAfter_Suc:
  "boundariesAfter n (Suc k) = boundariesAfter n k @ [windowStart (n + 1 + int k)]"
  by (simp add: boundariesAfter_def)

lemma checkDates_boundaries:
  assumes "validDay n" "validDay (n + int k)" "0 \<le> dayOffset st" "lastRealDateStr st = dayKey n"
  shows "checkDates (boundariesAfter n k) st =
     Inr (st\<lparr>lastRealDateStr := dayKey (n + int k),
             dayOffset := max 0 (dayOffset st - int k),
             dayCount := dayCount st + max 0 (int k - dayOffset st)\<rparr>)"
  using assms(2)
proof (induction k)
  case 0
  show ?case using assms(3,4) by (simp add: boundariesAfter_def)
next
  case (Suc k)
  have vk: "validDay (n + int k)" and vk1: "validDay (n + 1 + int k)"
    using assms(1) Suc.prems by (simp_all add: validDay_def abs_le_iff)
  define sk where "sk = st\<lparr>lastRealDateStr := dayKey (n + int k),
             dayOffset := max 0 (dayOffset st - int k),
             dayCount := dayCount st + max 0 (int k - dayOffset st)\<rparr>"
  have ih: "checkDates (boundariesAfter n k) st = Inr sk"
    unfolding sk_def by (rule Suc.IH[OF vk])
  have step: "checkDate (windowStart (n + 1 + int k)) sk =
     Inr (if dayOffset sk > 0
          then sk\<lparr>lastRealDateStr := dayKey (n + 1 + int k),
                  dayOffset := max 0 (dayOffset sk - 1)\<rparr>
          else sk\<lparr>lastRealDateStr := dayKey (n + 1 + int k), dayCount := dayCount sk + 1\<rparr>)"
    using checkDate_other_day[OF vk _ validTimestamp_windowStart[OF vk1], of sk]
    by (simp add: civilDay_windowStart sk_def)
  have "checkDates (boundariesAfter n (Suc k)) st =
     Inr (if dayOffset sk > 0
          then sk\<lparr>lastRealDateStr := dayKey (n + 1 + int k),
                  dayOffset := max 0 (dayOffset sk - 1)\<rparr>
          else sk\<lparr>lastRealDateStr := dayKey (n + 1 + int k), dayCount := dayCount sk + 1\<rparr>)"
    unfolding boundariesAfter_Suc checkDates_append ih by (simp only: sum.case step checkDates.simps)
  also have "\<dots> = Inr (st\<lparr>lastRealDateStr := dayKey (n + int (Suc k)),
             dayOffset := max 0 (dayOffset st - int (Suc k)),
             dayCount := dayCount st + max 0 (int (Suc k) - dayOffset st)\<rparr>)"
    using assms(3) by (auto simp: sk_def max_def algebra_simps intro!: App.equality)
  finally show ?case .
qed


text \<open>
  C1.  When the day key of the real time differs from \<open>lastRealDateStr\<close>, one call of
  \<open>checkDate\<close> stores the new key and then: if \<open>dayOffset > 0\<close> it takes one from
  \<open>dayOffset\<close>, which stays at or above 0, and leaves \<open>dayCount\<close>; if \<open>dayOffset = 0\<close> it
  adds one to \<open>dayCount\<close> and leaves \<open>dayOffset\<close> at 0.  In particular, from
  \<open>dayOffset = 0\<close>, \<open>dayCount = N\<close> and last observed day \<open>D\<close> (the day of \<open>t0\<close>), a check
  on day \<open>D + 1\<close> gives \<open>dayCount = N + 1\<close>, \<open>dayOffset = 0\<close>; and from \<open>dayOffset = 3\<close>,
  three successive checks on days \<open>D + 1\<close>, \<open>D + 2\<close>, \<open>D + 3\<close> give \<open>dayOffset = 0\<close> with
  \<open>dayCount\<close> unchanged.
\<close>

theorem checkDate_new_real_day:
  "(getGMT3DateString now = Inr k \<and> k \<noteq> lastRealDateStr st \<longrightarrow>
      (\<exists>st'. checkDate now st = Inr st' \<and> lastRealDateStr st' = k
         \<and> (0 < dayOffset st \<longrightarrow>
              dayOffset st' = dayOffset st - 1 \<and> 0 \<le> dayOffset st'
              \<and> dayCount st' = dayCount st)
         \<and> (dayOffset st = 0 \<longrightarrow> dayCount st' = dayCount st + 1 \<and> dayOffset st' = 0)
         \<and> meals st' = meals st \<and> waterLogs st' = waterLogs st \<and> goal st' = goal st))
   \<and> (validTimestamp t0 \<and> getGMT3DateString t0 = Inr (lastRealDateStr s0)
        \<and> dayOffset s0 = 0 \<and> validTimestamp t1 \<and> civilDay t1 = civilDay t0 + 1 \<longrightarrow>
      (\<exists>s1. checkDate t1 s0 = Inr s1 \<and> dayCount s1 = dayCount s0 + 1 \<and> dayOffset s1 = 0
         \<and> getGMT3DateString t1 = Inr (lastRealDateStr s1)))
   \<and> (validTimestamp u0 \<and> getGMT3DateString u0 = Inr (lastRealDateStr s3)
        \<and> dayOffset s3 = 3 \<and> validTimestamp u1 \<and> validTimestamp u2 \<and> validTimestamp u3
        \<and> civilDay u1 = civilDay u0 + 1 \<and> civilDay u2 = civilDay u0 + 2
        \<and> civilDay u3 = civilDay u0 + 3 \<longrightarrow>
      (\<exists>s'. checkDates [u1, u2, u3] s3 = Inr s' \<and> dayOffset s' = 0
         \<and> dayCount s' = dayCount s3 \<and> getGMT3DateString u3 = Inr (lastRealDateStr s')))"
proof (intro conjI impI)
  assume "getGMT3DateString now = Inr k \<and> k \<noteq> lastRealDateStr st"
  then show "\<exists>st'. checkDate now st = Inr st' \<and> lastRealDateStr st' = k
         \<and> (0 < dayOffset st \<longrightarrow>
              dayOffset st' = dayOffset st - 1 \<and> 0 \<le> dayOffset st'
              \<and> dayCount st' = dayCount st)
         \<and> (dayOffset st = 0 \<longrightarrow> dayCount st' = dayCount st + 1 \<and> dayOffset st' = 0)
         \<and> meals st' = meals st \<and> waterLogs st' = waterLogs st \<and> goal st' = goal st"
    by (simp add: checkDate_Inr)
next
  assume a: "validTimestamp t0 \<and> getGMT3DateString t0 = Inr (lastRealDateStr s0)
        \<and> dayOffset s0 = 0 \<and> validTimestamp t1 \<and> civilDay t1 = civilDay t0 + 1"
  then have l: "lastRealDateStr s0 = dayKey (civilDay t0)"
    using getGMT3DateString_dayKey[of t0] by simp
  have "checkDate t1 s0 =
          Inr (s0\<lparr>lastRealDateStr := dayKey (civilDay t1), dayCount := dayCount s0 + 1\<rparr>)"
    using checkDate_other_day[OF validDay_civilDay[of t0] l, of t1] a by simp
  then show "\<exists>s1. checkDate t1 s0 = Inr s1 \<and> dayCount s1 = dayCount s0 + 1 \<and> dayOffset s1 = 0
         \<and> getGMT3DateString t1 = Inr (lastRealDateStr s1)"
    using a by (simp add: getGMT3DateString_dayKey)
next
  assume a: "validTimestamp u0 \<and> getGMT3DateString u0 = Inr (lastRealDateStr s3)
        \<and> dayOffset s3 = 3 \<and> validTimestamp u1 \<and> validTimestamp u2 \<and> validTimestamp u3
        \<and> civilDay u1 = civilDay u0 + 1 \<and> civilDay u2 = civilDay u0 + 2
        \<and> civilDay u3 = civilDay u0 + 3"
  define n where "n = civilDay u0"
  have v: "validDay n" "validDay (n + 1)" "validDay (n + 2)"
    using a validDay_civilDay[of u0] validDay_civilDay[of u1] validDay_civilDay[of u2]
    by (simp_all add: n_def)
  have l: "lastRealDateStr s3 = dayKey n"
    using a getGMT3DateString_dayKey[of u0] by (simp add: n_def)
  define a1 where "a1 = s3\<lparr>lastRealDateStr := dayKey (n + 1), dayOffset := 2\<rparr>"
  define a2 where "a2 = a1\<lparr>lastRealDateStr := dayKey (n + 2), dayOffset := 1\<rparr>"
  define a3 where "a3 = a2\<lparr>lastRealDateStr := dayKey (n + 3), dayOffset := 0\<rparr>"
  have c1: "checkDate u1 s3 = Inr a1"
    using checkDate_other_day[OF v(1) l, of u1] a by (simp add: n_def a1_def)
  have c2: "checkDate u2 a1 = Inr a2"
    using checkDate_other_day[OF v(2), of a1 u2] a by (simp add: n_def a1_def a2_def)
  have c3: "checkDate u3 a2 = Inr a3"
    using checkDate_other_day[OF v(3), of a2 u3] a by (simp add: n_def a1_def a2_def a3_def)
  have "checkDates [u1, u2, u3] s3 = Inr a3" by (simp add: c1 c2 c3)
  moreover have "dayOffset a3 = 0" "dayCount a3 = dayCount s3"
    by (simp_all add: a1_def a2_def a3_def)
  moreover have "getGMT3DateString u3 = Inr (lastRealDateStr a3)"
    using a by (simp add: getGMT3DateString_dayKey a3_def n_def)
  ultimately show "\<exists>s'. checkDates [u1, u2, u3] s3 = Inr s' \<and> dayOffset s' = 0
         \<and> dayCount s' = dayCount s3 \<and> getGMT3DateString u3 = Inr (lastRealDateStr s')"
    by blast
qed


text \<open>
  Instances at midnight (UTC+3) after 14 November 2023: a natural rollover from
  \<open>dayOffset = 0\<close>, and the decay of \<open>dayOffset = 3\<close> over the next three midnights.
\<close>

theorem checkDate_new_real_day_witness:
  "(\<exists>st'. checkDate 1699995600000 exampleApp = Inr st'
       \<and> lastRealDateStr st' = ''2023-11-15'' \<and> dayCount st' = 2 \<and> dayOffset st' = 0)
   \<and> (\<exists>st'. checkDate 1699995600000 (exampleApp\<lparr>dayOffset := 3\<rparr>) = Inr st'
       \<and> lastRealDateStr st' = ''2023-11-15'' \<and> dayCount st' = 1 \<and> dayOffset st' = 2)
   \<and> (\<exists>s1. checkDate 1699995600000 exampleApp = Inr s1 \<and> dayCount s1 = 2
       \<and> dayOffset s1 = 0 \<and> getGMT3DateString 1699995600000 = Inr (lastRealDateStr s1))
   \<and> (\<exists>s'. checkDates [1699995600000, 1700082000000, 1700168400000]
              (exampleApp\<lparr>dayOffset := 3\<rparr>) = Inr s'
       \<and> dayOffset s' = 0 \<and> dayCount s' = 1)"
proof -
  note A = checkDate_new_real_day[of 1699995600000 "''2023-11-15''" exampleApp
      1699995599999 exampleApp 1699995600000
      1699995599999 "exampleApp\<lparr>dayOffset := 3\<rparr>" 1699995600000 1700082000000 1700168400000]
  note B = checkDate_new_real_day[of 1699995600000 "''2023-11-15''"
      "exampleApp\<lparr>dayOffset := 3\<rparr>"
      1699995599999 exampleApp 1699995600000
      1699995599999 "exampleApp\<lparr>dayOffset := 3\<rparr>" 1699995600000 1700082000000 1700168400000]
  have k: "getGMT3DateString 1699995600000 = Inr ''2023-11-15''"
          "getGMT3DateString 1699995599999 = Inr ''2023-11-14''"
    by (rule getGMT3DateString_at_midnight, rule getGMT3DateString_before_midnight)
  have v: "validTimestamp 1699995599999" "validTimestamp 1699995600000"
          "validTimestamp 1700082000000" "validTimestamp 1700168400000"
    by (simp_all add: validTimestamp_def)
  have c: "civilDay 1699995600000 = civilDay 1699995599999 + 1"
          "civilDay 1700082000000 = civilDay 1699995599999 + 2"
          "civilDay 1700168400000 = civilDay 1699995599999 + 3"
    by (simp_all add: civilDay_def)
  have e: "lastRealDateStr exampleApp = ''2023-11-14''" "dayOffset exampleApp = 0"
          "dayCount exampleApp = 1"
    by (simp_all add: exampleApp_def)
  have w1: "\<exists>st'. checkDate 1699995600000 exampleApp = Inr st'
       \<and> lastRealDateStr st' = ''2023-11-15'' \<and> dayCount st' = 2 \<and> dayOffset st' = 0"
    using A[THEN conjunct1] k(1) e by auto
  have w2: "\<exists>st'. checkDate 1699995600000 (exampleApp\<lparr>dayOffset := 3\<rparr>) = Inr st'
       \<and> lastRealDateStr st' = ''2023-11-15'' \<and> dayCount st' = 1 \<and> dayOffset st' = 2"
    using B[THEN conjunct1] k(1) e by auto
  have w3: "\<exists>s'. checkDates [1699995600000, 1700082000000, 1700168400000]
              (exampleApp\<lparr>dayOffset := 3\<rparr>) = Inr s'
       \<and> dayOffset s' = 0 \<and> dayCount s' = 1"
    using A[THEN conjunct2, THEN conjunct2] k(2) v c e by auto
  have w4: "\<exists>s1. checkDate 1699995600000 exampleApp = Inr s1 \<and> dayCount s1 = 2
       \<and> dayOffset s1 = 0 \<and> getGMT3DateString 1699995600000 = Inr (lastRealDateStr s1)"
    using A[THEN conjunct2, THEN conjunct1] k(2) v c e by auto
  show ?thesis using w1 w2 w3 w4 by blast
qed

text \<open>
  C5.  A second call of \<open>checkDate\<close> with the real day key unchanged leaves the state
  the first call produced (and repeats its exception if the key could not be
  computed); a call whose key equals \<open>lastRealDateStr\<close> changes nothing.
\<close>

theorem checkDate_idempotent:
  "(getGMT3DateString t1 = getGMT3DateString t2 \<longrightarrow>
      checkDates [t1, t2] st = checkDate t1 st)
   \<and> (getGMT3DateString t1 = Inr k \<and> getGMT3DateString t2 = Inr k \<longrightarrow>
      (\<exists>s1. checkDate t1 st = Inr s1 \<and> checkDate t2 s1 = Inr s1))
   \<and> (getGMT3DateString t = Inr (lastRealDateStr s) \<longrightarrow> checkDate t s = Inr s)"
proof (intro conjI impI)
  show "checkDates [t1, t2] st = checkDate t1 st"
    if "getGMT3DateString t1 = getGMT3DateString t2"
  proof (cases "getGMT3DateString t1")
    case (Inl e)
    then show ?thesis by (simp add: checkDate_Inl)
  next
    case (Inr k)
    then have "getGMT3DateString t2 = Inr k" using that by simp
    then show ?thesis by (simp add: checkDate_Inr[OF Inr] checkDate_Inr)
  qed
  show "\<exists>s1. checkDate t1 st = Inr s1 \<and> checkDate t2 s1 = Inr s1"
    if "getGMT3DateString t1 = Inr k \<and> getGMT3DateString t2 = Inr k"
    using that by (simp add: checkDate_Inr)
  show "checkDate t s = Inr s" if "getGMT3DateString t = Inr (lastRealDateStr s)"
    using that by (rule checkDate_same_key)
qed

lemma getGMT3DateString_after_midnight:
  "getGMT3DateString 1699995600001 = Inr ''2023-11-15''"
  by code_simp

text \<open>
  Two ticks one millisecond apart just after midnight, and a tick just before it.
\<close>

theorem checkDate_idempotent_witness:
  "getGMT3DateString 1699995600000 = getGMT3DateString 1699995600001
   \<and> checkDates [1699995600000, 1699995600001] exampleApp = checkDate 1699995600000 exampleApp
   \<and> (\<exists>s1. checkDate 1699995600000 exampleApp = Inr s1
         \<and> checkDate 1699995600001 s1 = Inr s1)
   \<and> getGMT3DateString 1699995599999 = Inr (lastRealDateStr exampleApp)
   \<and> checkDate 1699995599999 exampleApp = Inr exampleApp"
proof -
  note A = checkDate_idempotent[of 1699995600000 1699995600001 exampleApp "''2023-11-15''"
      1699995599999 exampleApp]
  have k: "getGMT3DateString 1699995600000 = Inr ''2023-11-15''"
          "getGMT3DateString 1699995600001 = Inr ''2023-11-15''"
          "getGMT3DateString 1699995599999 = Inr (lastRealDateStr exampleApp)"
    by (simp_all add: getGMT3DateString_at_midnight getGMT3DateString_after_midnight
        getGMT3DateString_before_midnight exampleApp_def)
  show ?thesis using A k by simp
qed

text \<open>
  C4.  \<open>dayOffset \<ge> 0\<close> in every reachable state: it is 0 in the initial state, and
  \<open>checkDate\<close>, \<open>handleManualEndDay\<close> and \<open>resetDayCounter\<close> each take a state with
  \<open>dayOffset \<ge> 0\<close> to a state with \<open>dayOffset \<ge> 0\<close>.
\<close>

theorem dayOffset_nonnegative:
  "(App_init now = Inr s0 \<longrightarrow> dayOffset s0 = 0)
   \<and> (0 \<le> dayOffset st \<and> checkDate t st = Inr st' \<longrightarrow> 0 \<le> dayOffset st')
   \<and> (0 \<le> dayOffset st \<longrightarrow> 0 \<le> dayOffset (handleManualEndDay st))
   \<and> (0 \<le> dayOffset st \<longrightarrow> 0 \<le> dayOffset (state_after (resetDayCounter t st)))
   \<and> (reachable r \<longrightarrow> 0 \<le> dayOffset r)"
proof (intro conjI impI)
  show i: "dayOffset s0 = 0" if "App_init now = Inr s0" for now s0
    using that by (auto simp: App_init_def split: sum.splits)
  show c: "0 \<le> dayOffset st'" if "0 \<le> dayOffset st \<and> checkDate t st = Inr st'" for t st st'
    using that by (auto simp: checkDate_def split: sum.splits if_splits)
  show e: "0 \<le> dayOffset (handleManualEndDay st)" if "0 \<le> dayOffset st" for st
    using that by (simp add: handleManualEndDay_def)
  show z: "0 \<le> dayOffset (state_after (resetDayCounter t st))" for t st
    by (simp add: resetDayCounter_def state_after_def Let_def split: sum.splits)
  show "0 \<le> dayOffset r" if "reachable r"
    using that
  proof (induction rule: reachable.induct)
    case (reach_init now st)
    then show ?case using i by simp
  next
    case (reach_checkDate st now st')
    then show ?case using c by blast
  next
    case (reach_endDay st)
    then show ?case using e by blast
  next
    case (reach_reset st now)
    show ?case by (rule z)
  next
    case (reach_saveMeal st newId now a url)
    then show ?case by (simp add: handleSaveMeal_def Let_def)
  next
    case (reach_addWater st newId now amt)
    then show ?case by (simp add: handleAddWater_def Let_def)
  next
    case (reach_calc st)
    then show ?case by (simp add: calculateRecommendedCalories_def Let_def)
  qed
qed

lemma App_init_example: "App_init 1699995599999 = Inr exampleApp"
  by (simp add: App_init_def getGMT3DateString_before_midnight exampleApp_def)

text \<open>
  The state of a first render just before midnight, the tick at midnight, a manual
  advance and a reset.
\<close>

theorem dayOffset_nonnegative_witness:
  "App_init 1699995599999 = Inr exampleApp \<and> dayOffset exampleApp = 0
   \<and> checkDate 1699995600000 exampleApp
       = Inr (exampleApp\<lparr>lastRealDateStr := ''2023-11-15'', dayCount := 2\<rparr>)
   \<and> 0 \<le> dayOffset (exampleApp\<lparr>lastRealDateStr := ''2023-11-15'', dayCount := 2\<rparr>)
   \<and> 0 \<le> dayOffset (handleManualEndDay exampleApp)
   \<and> 0 \<le> dayOffset (state_after (resetDayCounter 1699995600000 exampleApp))
   \<and> reachable (handleManualEndDay exampleApp)
   \<and> 0 \<le> dayOffset (handleManualEndDay exampleApp)"
proof -
  note A = dayOffset_nonnegative[of 1699995599999 exampleApp exampleApp 1699995600000
      "exampleApp\<lparr>lastRealDateStr := ''2023-11-15'', dayCount := 2\<rparr>"
      "handleManualEndDay exampleApp"]
  have c: "checkDate 1699995600000 exampleApp
       = Inr (exampleApp\<lparr>lastRealDateStr := ''2023-11-15'', dayCount := 2\<rparr>)"
    by (simp add: checkDate_Inr[OF getGMT3DateString_at_midnight] exampleApp_def)
  have r: "reachable (handleManualEndDay exampleApp)"
    by (rule reach_endDay, rule reach_init, rule App_init_example)
  have z: "dayOffset exampleApp = 0" using A App_init_example by blast
  show ?thesis using A App_init_example c r z by simp
qed


lemma getGMT3DateString_two_days_later:
  "getGMT3DateString 1700082000000 = Inr ''2023-11-16''"
  by code_simp

text \<open>
  C9, as stated, fails where it says that \<open>dayCount\<close> ends lower than the iteration
  gives.  After two manual advances on 14 November 2023 (\<open>dayOffset = 2\<close>,
  \<open>dayCount = 3\<close>) and a gap of two days, the single check and the two checks at the
  missed midnights end with the same \<open>dayCount\<close>; they differ in \<open>dayOffset\<close> only.
\<close>

theorem checkDate_gap_same_dayCount:
  "handleManualEndDay (handleManualEndDay exampleApp)
     = exampleApp\<lparr>dayOffset := 2, dayCount := 3\<rparr>
   \<and> checkDate 1700082000000 (handleManualEndDay (handleManualEndDay exampleApp))
       = Inr (exampleApp\<lparr>dayOffset := 1, dayCount := 3, lastRealDateStr := ''2023-11-16''\<rparr>)
   \<and> boundariesAfter (civilDay 1699995599999) 2 = [1699995600000, 1700082000000]
   \<and> checkDates [1699995600000, 1700082000000]
         (handleManualEndDay (handleManualEndDay exampleApp))
       = Inr (exampleApp\<lparr>dayOffset := 0, dayCount := 3, lastRealDateStr := ''2023-11-16''\<rparr>)
   \<and> \<not> dayCount (exampleApp\<lparr>dayOffset := 1, dayCount := 3,
                               lastRealDateStr := ''2023-11-16''\<rparr>)
         < dayCount (exampleApp\<lparr>dayOffset := 0, dayCount := 3,
                                 lastRealDateStr := ''2023-11-16''\<rparr>)"
proof -
  have h: "handleManualEndDay (handleManualEndDay exampleApp)
     = exampleApp\<lparr>dayOffset := 2, dayCount := 3\<rparr>"
    by (simp add: handleManualEndDay_def exampleApp_def)
  have b: "boundariesAfter (civilDay 1699995599999) 2 = [1699995600000, 1700082000000]"
    by (simp add: boundariesAfter_def civilDay_def windowStart_def upt_rec numeral_2_eq_2)
  have c1: "checkDate 1700082000000 (exampleApp\<lparr>dayOffset := 2, dayCount := 3\<rparr>)
       = Inr (exampleApp\<lparr>dayOffset := 1, dayCount := 3, lastRealDateStr := ''2023-11-16''\<rparr>)"
    by (simp add: checkDate_Inr[OF getGMT3DateString_two_days_later] exampleApp_def)
  have c2: "checkDate 1699995600000 (exampleApp\<lparr>dayOffset := 2, dayCount := 3\<rparr>)
       = Inr (exampleApp\<lparr>dayOffset := 1, dayCount := 3, lastRealDateStr := ''2023-11-15''\<rparr>)"
    by (simp add: checkDate_Inr[OF getGMT3DateString_at_midnight] exampleApp_def)
  have c3: "checkDate 1700082000000
         (exampleApp\<lparr>dayOffset := 1, dayCount := 3, lastRealDateStr := ''2023-11-15''\<rparr>)
       = Inr (exampleApp\<lparr>dayOffset := 0, dayCount := 3, lastRealDateStr := ''2023-11-16''\<rparr>)"
    by (simp add: checkDate_Inr[OF getGMT3DateString_two_days_later] exampleApp_def)
  show ?thesis unfolding h by (simp add: b c1 c2 c3)
qed

text \<open>
  C9, amended.  Let the last observed real day be that of \<open>t0\<close> and let the next
  check happen at \<open>now\<close>, \<open>k \<ge> 2\<close> civil days later, with \<open>dayOffset \<ge> 0\<close>.  That check
  stores the key of \<open>now\<close> and applies the
  one-day rule once: \<open>dayOffset\<close> falls by one if it was positive, else \<open>dayCount\<close> rises
  by one.  Every later check on the same civil day changes nothing.  Against \<open>k\<close>
  checks, one at each missed boundary, exactly \<open>k - 1\<close> units stay unabsorbed, split
  between a \<open>dayOffset\<close> that is higher and a \<open>dayCount\<close> that is lower than the
  iteration gives: \<open>dayOffset\<close> stays positive whenever it was at least 2, and
  \<open>dayCount\<close> ends strictly lower whenever \<open>dayOffset\<close> was below \<open>k\<close>; when \<open>dayOffset\<close>
  was \<open>k\<close> or more the two \<open>dayCount\<close>s are equal.
\<close>

theorem checkDate_multi_day_gap:
  assumes "validTimestamp t0" "getGMT3DateString t0 = Inr (lastRealDateStr st)"
    and "validTimestamp now" "civilDay now = civilDay t0 + int k" "2 \<le> k"
    and "0 \<le> dayOffset st"
    and "validTimestamp later" "civilDay later = civilDay now"
  shows "\<exists>s1 sk. checkDate now st = Inr s1
     \<and> getGMT3DateString now = Inr (lastRealDateStr s1)
     \<and> dayOffset s1 = (if 0 < dayOffset st then dayOffset st - 1 else 0)
     \<and> dayCount s1 = (if 0 < dayOffset st then dayCount st else dayCount st + 1)
     \<and> checkDate later s1 = Inr s1
     \<and> checkDates (boundariesAfter (civilDay t0) k) st = Inr sk
     \<and> lastRealDateStr sk = lastRealDateStr s1
     \<and> dayOffset sk = max 0 (dayOffset st - int k)
     \<and> dayCount sk = dayCount st + max 0 (int k - dayOffset st)
     \<and> (dayOffset s1 - dayOffset sk) + (dayCount sk - dayCount s1) = int k - 1
     \<and> dayOffset sk \<le> dayOffset s1 \<and> dayCount s1 \<le> dayCount sk
     \<and> s1 \<noteq> sk
     \<and> (2 \<le> dayOffset st \<longrightarrow> 0 < dayOffset s1)
     \<and> (dayOffset st < int k \<longrightarrow> dayCount s1 < dayCount sk)
     \<and> (int k \<le> dayOffset st \<longrightarrow> dayCount s1 = dayCount sk)"
proof -
  define n where "n = civilDay t0"
  have vn: "validDay n" and vk: "validDay (n + int k)"
    using validDay_civilDay[OF assms(1)] validDay_civilDay[OF assms(3)] assms(4)
    by (simp_all add: n_def)
  have l: "lastRealDateStr st = dayKey n"
    using getGMT3DateString_dayKey[OF assms(1)] assms(2) by (simp add: n_def)
  have ne: "civilDay now \<noteq> n" using assms(4,5) by (simp add: n_def)
  define s1 where "s1 =
    (if dayOffset st > 0
     then st\<lparr>lastRealDateStr := dayKey (civilDay now), dayOffset := max 0 (dayOffset st - 1)\<rparr>
     else st\<lparr>lastRealDateStr := dayKey (civilDay now), dayCount := dayCount st + 1\<rparr>)"
  define sk where "sk = st\<lparr>lastRealDateStr := dayKey (n + int k),
             dayOffset := max 0 (dayOffset st - int k),
             dayCount := dayCount st + max 0 (int k - dayOffset st)\<rparr>"
  have c1: "checkDate now st = Inr s1"
    unfolding s1_def by (rule checkDate_other_day[OF vn l assms(3) ne])
  have k1: "lastRealDateStr s1 = dayKey (civilDay now)" by (simp add: s1_def)
  have g1: "getGMT3DateString now = Inr (lastRealDateStr s1)"
    by (simp add: k1 getGMT3DateString_dayKey[OF assms(3)])
  have c2: "checkDate later s1 = Inr s1"
    by (rule checkDate_same_key) (simp add: k1 getGMT3DateString_dayKey[OF assms(7)] assms(8))
  have ck: "checkDates (boundariesAfter (civilDay t0) k) st = Inr sk"
    unfolding sk_def n_def[symmetric] by (rule checkDates_boundaries[OF vn vk assms(6) l])
  have f1: "dayOffset s1 = (if 0 < dayOffset st then dayOffset st - 1 else 0)"
    using assms(6) by (simp add: s1_def)
  have f2: "dayCount s1 = (if 0 < dayOffset st then dayCount st else dayCount st + 1)"
    by (simp add: s1_def)
  have f3: "dayOffset sk = max 0 (dayOffset st - int k)"
           "dayCount sk = dayCount st + max 0 (int k - dayOffset st)"
           "lastRealDateStr sk = lastRealDateStr s1"
    using assms(4) by (simp_all add: sk_def k1 n_def)
  have f4: "(dayOffset s1 - dayOffset sk) + (dayCount sk - dayCount s1) = int k - 1"
           "dayOffset sk \<le> dayOffset s1" "dayCount s1 \<le> dayCount sk"
    using assms(5,6) unfolding f1 f2 f3 by (simp_all add: max_def)
  have f5: "s1 \<noteq> sk"
  proof
    assume "s1 = sk"
    then have "(dayOffset s1 - dayOffset sk) + (dayCount sk - dayCount s1) = 0" by simp
    then show False using f4(1) assms(5) by simp
  qed
  have f6: "2 \<le> dayOffset st \<longrightarrow> 0 < dayOffset s1"
           "dayOffset st < int k \<longrightarrow> dayCount s1 < dayCount sk"
           "int k \<le> dayOffset st \<longrightarrow> dayCount s1 = dayCount sk"
    using assms(5,6) unfolding f1 f2 f3 by (simp_all add: max_def)
  show ?thesis using c1 g1 f1 f2 c2 ck f3 f4 f5 f6 by blast
qed

lemma getGMT3DateString_three_days_later:
  "getGMT3DateString 1700168400000 = Inr ''2023-11-17''"
  by code_simp

text \<open>
  A gap of three days from 14 November 2023 with \<open>dayOffset = 2\<close>: the single check
  leaves \<open>dayOffset = 1\<close> and \<open>dayCount = 1\<close>, where a check at each of the three
  midnights gives \<open>dayOffset = 0\<close> and \<open>dayCount = 2\<close>.
\<close>

theorem checkDate_multi_day_gap_witness:
  "\<exists>s1 sk. checkDate 1700168400000 (exampleApp\<lparr>dayOffset := 2\<rparr>) = Inr s1
     \<and> lastRealDateStr s1 = ''2023-11-17''
     \<and> dayOffset s1 = 1 \<and> dayCount s1 = 1
     \<and> checkDate 1700168400001 s1 = Inr s1
     \<and> checkDates (boundariesAfter (civilDay 1699995599999) 3) (exampleApp\<lparr>dayOffset := 2\<rparr>)
         = Inr sk
     \<and> dayOffset sk = 0 \<and> dayCount sk = 2 \<and> s1 \<noteq> sk"
proof -
  have h: "validTimestamp 1699995599999"
    "getGMT3DateString 1699995599999 = Inr (lastRealDateStr (exampleApp\<lparr>dayOffset := 2\<rparr>))"
    "validTimestamp 1700168400000" "civilDay 1700168400000 = civilDay 1699995599999 + int 3"
    "2 \<le> (3::nat)" "0 \<le> dayOffset (exampleApp\<lparr>dayOffset := 2\<rparr>)"
    "validTimestamp 1700168400001" "civilDay 1700168400001 = civilDay 1700168400000"
    by (simp_all add: validTimestamp_def civilDay_def getGMT3DateString_before_midnight
        exampleApp_def)
  from checkDate_multi_day_gap[OF h]
  obtain s1 sk where r: "checkDate 1700168400000 (exampleApp\<lparr>dayOffset := 2\<rparr>) = Inr s1"
    "getGMT3DateString 1700168400000 = Inr (lastRealDateStr s1)"
    "dayOffset s1 = (if 0 < dayOffset (exampleApp\<lparr>dayOffset := 2\<rparr>)
                     then dayOffset (exampleApp\<lparr>dayOffset := 2\<rparr>) - 1 else 0)"
    "dayCount s1 = (if 0 < dayOffset (exampleApp\<lparr>dayOffset := 2\<rparr>)
                    then dayCount (exampleApp\<lparr>dayOffset := 2\<rparr>)
                    else dayCount (exampleApp\<lparr>dayOffset := 2\<rparr>) + 1)"
    "checkDate 1700168400001 s1 = Inr s1"
    "checkDates (boundariesAfter (civilDay 1699995599999) 3) (exampleApp\<lparr>dayOffset := 2\<rparr>)
       = Inr sk"
    "dayOffset sk = max 0 (dayOffset (exampleApp\<lparr>dayOffset := 2\<rparr>) - int 3)"
    "dayCount sk = dayCount (exampleApp\<lparr>dayOffset := 2\<rparr>)
                   + max 0 (int 3 - dayOffset (exampleApp\<lparr>dayOffset := 2\<rparr>))"
    "s1 \<noteq> sk"
    by blast
  have "lastRealDateStr s1 = ''2023-11-17''"
    using r(2) by (simp add: getGMT3DateString_three_days_later)
  moreover have "dayOffset s1 = 1" "dayCount s1 = 1" "dayOffset sk = 0" "dayCount sk = 2"
    using r(3,4,7,8) by (simp_all add: exampleApp_def)
  ultimately show ?thesis using r(1,5,6,9) by blast
qed

section \<open>Manual advance\<close>

text \<open>
  C6.  For every prior state, the manual advance \<open>handleManualEndDay\<close> adds one to
  \<open>dayOffset\<close> and one to \<open>dayCount\<close> and leaves \<open>lastRealDateStr\<close> (and every other
  field) as it was; from \<open>dayOffset = 0\<close>, \<open>dayCount = N\<close> it gives \<open>dayOffset = 1\<close>,
  \<open>dayCount = N + 1\<close>.
\<close>

theorem handleManualEndDay_effect:
  "dayOffset (handleManualEndDay st) = dayOffset st + 1
   \<and> dayCount (handleManualEndDay st) = dayCount st + 1
   \<and> lastRealDateStr (handleManualEndDay st) = lastRealDateStr st
   \<and> meals (handleManualEndDay st) = meals st
   \<and> waterLogs (handleManualEndDay st) = waterLogs st
   \<and> goal (handleManualEndDay st) = goal st
   \<and> tempGoal (handleManualEndDay st) = tempGoal st
   \<and> currentView (handleManualEndDay st) = currentView st
   \<and> addMealInitialMode (handleManualEndDay st) = addMealInitialMode st
   \<and> handleManualEndDay (st\<lparr>dayOffset := 0, dayCount := N, lastRealDateStr := D\<rparr>)
       = st\<lparr>dayOffset := 1, dayCount := N + 1, lastRealDateStr := D\<rparr>"
  by (simp add: handleManualEndDay_def)

section \<open>Goal arithmetic\<close>

text \<open>
  C3, as stated, fails on the default biometric inputs (70 kg, 170 cm, 30 years, male,
  moderate, maintain): the basal rate is not 1591.5 and the result is not 2467.
\<close>

theorem calculateRecommendedCalories_not_2467:
  "bmr (tempGoal exampleApp) \<noteq> 1591.5
   \<and> fst (calculateRecommendedCalories exampleApp) \<noteq> 2467"
  by (simp add: exampleApp_def DEFAULT_GOAL_def bmr_def calculateRecommendedCalories_def
      activityMultipliers_def Math_round_def)

text \<open>
  C3, amended.  For weight 70 kg, height 170 cm, age 30, male, moderate activity
  (multiplier 1.55) and goal type maintain, the basal rate is
  \<open>10 \<times> 70 + 6.25 \<times> 170 - 5 \<times> 30 + 5 = 1617.5\<close>, and the function returns
  \<open>round (1617.5 \<times> 1.55) = round 2507.125 = 2507\<close>, which it also stores as the daily
  energy target of the edited goal.
\<close>

theorem calculateRecommendedCalories_example:
  "bmr (g\<lparr>currentWeight := 70, height := 170, age := 30, gender := male,
          activityLevel := moderate, goalType := maintain\<rparr>) = 1617.5
   \<and> fst (calculateRecommendedCalories
          (st\<lparr>tempGoal := g\<lparr>currentWeight := 70, height := 170, age := 30, gender := male,
                              activityLevel := moderate, goalType := maintain\<rparr>\<rparr>)) = 2507
   \<and> dailyCalories (tempGoal (snd (calculateRecommendedCalories
          (st\<lparr>tempGoal := g\<lparr>currentWeight := 70, height := 170, age := 30, gender := male,
                              activityLevel := moderate, goalType := maintain\<rparr>\<rparr>)))) = 2507"
  by (simp add: bmr_def calculateRecommendedCalories_def activityMultipliers_def
      Math_round_def)

section \<open>Hydration log\<close>

lemma filterE_snoc:
  "filterE p (xs @ [x]) =
     (case filterE p xs of
        Inl e \<Rightarrow> Inl e
      | Inr ys \<Rightarrow> (case p x of Inl e \<Rightarrow> Inl e
                   | Inr b \<Rightarrow> Inr (if b then ys @ [x] else ys)))"
  by (induction xs) (simp_all split: sum.splits)

lemma filterE_total:
  "\<forall>x\<in>set xs. p x = Inr (q x) \<Longrightarrow> filterE p xs = Inr (filter q xs)"
  by (induction xs) simp_all

lemma foldl_amount: "foldl (\<lambda>acc curr. acc + amount curr) a ws = a + sum_list (map amount ws)"
  by (induction ws arbitrary: a) simp_all

lemma getVirtualNow_handleAddWater:
  "getVirtualNow t (handleAddWater newId now a st) = getVirtualNow t st"
  by (simp add: getVirtualNow_def handleAddWater_def)

lemma todayWater_handleAddWater:
  assumes "todayWater now st = Inr tot"
  shows "todayWater now (handleAddWater newId now a st) = Inr (tot + a)"
proof -
  from assms obtain cur where
    c: "getGMT3DateString (getVirtualNow now st) = Inr cur"
    by (auto simp: todayWater_def split: sum.splits)
  from assms c obtain ws where
    f: "filterE (\<lambda>w. sameDay cur (WaterLog.timestamp w)) (waterLogs st) = Inr ws"
    and t: "tot = foldl (\<lambda>acc curr. acc + amount curr) 0 ws"
    by (auto simp: todayWater_def split: sum.splits)
  define new where "new = \<lparr>id' = newId, timestamp = getVirtualNow now st, amount = a\<rparr>"
  have n: "sameDay cur (WaterLog.timestamp new) = Inr True"
    by (simp add: sameDay_def new_def c)
  have w: "waterLogs (handleAddWater newId now a st) = waterLogs st @ [new]"
    by (simp add: handleAddWater_def new_def)
  have am: "amount new = a" by (simp add: new_def)
  show ?thesis
    unfolding todayWater_def getVirtualNow_handleAddWater c w
    by (simp add: filterE_snoc f n t foldl_amount am)
qed

text \<open>
  When every stored timestamp and the virtual now can be bucketed, \<open>todayWater\<close> is the
  signed sum of the amounts logged on the current virtual civil day.
\<close>

lemma todayWater_signed_sum:
  assumes "validTimestamp (getVirtualNow now st)"
    and "\<forall>w\<in>set (waterLogs st). validTimestamp (WaterLog.timestamp w)"
  shows "todayWater now st =
     Inr (sum_list (map amount
            (filter (\<lambda>w. civilDay (WaterLog.timestamp w) = civilDay (getVirtualNow now st))
               (waterLogs st))))"
proof -
  have c: "getGMT3DateString (getVirtualNow now st) = Inr (dayKey (civilDay (getVirtualNow now st)))"
    by (rule getGMT3DateString_dayKey[OF assms(1)])
  have "\<forall>w\<in>set (waterLogs st).
          sameDay (dayKey (civilDay (getVirtualNow now st))) (WaterLog.timestamp w)
          = Inr (civilDay (WaterLog.timestamp w) = civilDay (getVirtualNow now st))"
  proof
    fix w assume "w \<in> set (waterLogs st)"
    then have v: "validTimestamp (WaterLog.timestamp w)" using assms(2) by blast
    show "sameDay (dayKey (civilDay (getVirtualNow now st))) (WaterLog.timestamp w)
          = Inr (civilDay (WaterLog.timestamp w) = civilDay (getVirtualNow now st))"
      using dayKey_eq_iff[OF validDay_civilDay[OF v] validDay_civilDay[OF assms(1)]]
      by (simp add: sameDay_def getGMT3DateString_dayKey[OF v])
  qed
  then have "filterE (\<lambda>w. sameDay (dayKey (civilDay (getVirtualNow now st)))
                           (WaterLog.timestamp w)) (waterLogs st)
     = Inr (filter (\<lambda>w. civilDay (WaterLog.timestamp w) = civilDay (getVirtualNow now st))
              (waterLogs st))"
    by (rule filterE_total)
  then show ?thesis
    unfolding todayWater_def c by (simp add: foldl_amount)
qed

text \<open>
  C10.  For every water log and every amount \<open>a\<close>, negative ones included,
  \<open>handleAddWater\<close> appends exactly one event carrying \<open>a\<close>, stamped with the virtual
  now, and leaves the existing events and the rest of the state unchanged.  The daily
  total is the signed sum of the amounts bucketed to the current virtual day and moves
  by \<open>a\<close>, so it can become negative: the minus button is disabled only when the
  displayed total is \<open>\<le> 0\<close>, and from a displayed total of 100 a click takes the total
  to \<open>-150\<close>.
\<close>

theorem handleAddWater_signed_total:
  "waterLogs (handleAddWater newId now a st)
     = waterLogs st @ [\<lparr>id' = newId, timestamp = getVirtualNow now st, amount = a\<rparr>]
   \<and> meals (handleAddWater newId now a st) = meals st
   \<and> dayOffset (handleAddWater newId now a st) = dayOffset st
   \<and> dayCount (handleAddWater newId now a st) = dayCount st
   \<and> lastRealDateStr (handleAddWater newId now a st) = lastRealDateStr st
   \<and> goal (handleAddWater newId now a st) = goal st
   \<and> (validTimestamp (getVirtualNow now st)
        \<and> (\<forall>w\<in>set (waterLogs st). validTimestamp (WaterLog.timestamp w)) \<longrightarrow>
      todayWater now st =
        Inr (sum_list (map amount
               (filter (\<lambda>w. civilDay (WaterLog.timestamp w) = civilDay (getVirtualNow now st))
                  (waterLogs st)))))
   \<and> (todayWater now st = Inr tot \<longrightarrow>
        todayWater now (handleAddWater newId now a st) = Inr (tot + a))
   \<and> (todayWater renderNow st = Inr displayed \<longrightarrow>
        clickMinus newId renderNow clickNow st =
          Inr (if displayed \<le> 0 then st else handleAddWater newId clickNow (- 250) st))
   \<and> (todayWater now st = Inr 100 \<longrightarrow>
        \<not> minusDisabled 100
        \<and> clickMinus newId now now st = Inr (handleAddWater newId now (- 250) st)
        \<and> todayWater now (handleAddWater newId now (- 250) st) = Inr (- 150))"
proof (intro conjI impI)
  show "todayWater now st =
        Inr (sum_list (map amount
               (filter (\<lambda>w. civilDay (WaterLog.timestamp w) = civilDay (getVirtualNow now st))
                  (waterLogs st))))"
    if "validTimestamp (getVirtualNow now st)
        \<and> (\<forall>w\<in>set (waterLogs st). validTimestamp (WaterLog.timestamp w))"
    using that todayWater_signed_sum by blast
  show "todayWater now (handleAddWater newId now a st) = Inr (tot + a)"
    if "todayWater now st = Inr tot"
    by (rule todayWater_handleAddWater[OF that])
  show "clickMinus newId renderNow clickNow st =
          Inr (if displayed \<le> 0 then st else handleAddWater newId clickNow (- 250) st)"
    if "todayWater renderNow st = Inr displayed"
    by (simp add: clickMinus_def that minusDisabled_def)
  assume h: "todayWater now st = Inr 100"
  show "\<not> minusDisabled 100" by (simp add: minusDisabled_def)
  show "clickMinus newId now now st = Inr (handleAddWater newId now (- 250) st)"
    by (simp add: clickMinus_def h minusDisabled_def)
  show "todayWater now (handleAddWater newId now (- 250) st) = Inr (- 150)"
    using todayWater_handleAddWater[OF h, of newId "- 250"] by simp
qed (simp_all add: handleAddWater_def)

text \<open>
  A log holding one event of 100 ml on 14 November 2023, displayed and clicked on that
  day.
\<close>

theorem handleAddWater_signed_total_witness:
  "todayWater 1699995599999
     (exampleApp\<lparr>waterLogs := [\<lparr>id' = ''w1'', timestamp = 1699995599999, amount = 100\<rparr>]\<rparr>)
     = Inr 100
   \<and> validTimestamp (getVirtualNow 1699995599999
        (exampleApp\<lparr>waterLogs := [\<lparr>id' = ''w1'', timestamp = 1699995599999, amount = 100\<rparr>]\<rparr>))
   \<and> clickMinus ''w2'' 1699995599999 1699995599999
        (exampleApp\<lparr>waterLogs := [\<lparr>id' = ''w1'', timestamp = 1699995599999, amount = 100\<rparr>]\<rparr>)
     = Inr (exampleApp\<lparr>waterLogs :=
              [\<lparr>id' = ''w1'', timestamp = 1699995599999, amount = 100\<rparr>,
               \<lparr>id' = ''w2'', timestamp = 1699995599999, amount = - 250\<rparr>]\<rparr>)
   \<and> todayWater 1699995599999
        (exampleApp\<lparr>waterLogs :=
              [\<lparr>id' = ''w1'', timestamp = 1699995599999, amount = 100\<rparr>,
               \<lparr>id' = ''w2'', timestamp = 1699995599999, amount = - 250\<rparr>]\<rparr>)
     = Inr (- 150)"
proof -
  define st where "st = exampleApp\<lparr>waterLogs :=
     [\<lparr>id' = ''w1'', timestamp = 1699995599999, amount = 100\<rparr>]\<rparr>"
  have g: "getVirtualNow 1699995599999 st = 1699995599999"
    by (simp add: getVirtualNow_def st_def exampleApp_def)
  have v: "validTimestamp (getVirtualNow 1699995599999 st)"
    "\<forall>w\<in>set (waterLogs st). validTimestamp (WaterLog.timestamp w)"
    by (simp_all add: g) (simp_all add: st_def validTimestamp_def)
  note A = handleAddWater_signed_total[of "''w2''" 1699995599999 "- 250" st 100
      1699995599999 100 1699995599999]
  have t: "todayWater 1699995599999 st = Inr 100"
    using A v by (simp add: g) (simp add: st_def)
  have h: "handleAddWater ''w2'' 1699995599999 (- 250) st = exampleApp\<lparr>waterLogs :=
              [\<lparr>id' = ''w1'', timestamp = 1699995599999, amount = 100\<rparr>,
               \<lparr>id' = ''w2'', timestamp = 1699995599999, amount = - 250\<rparr>]\<rparr>"
    by (simp add: handleAddWater_def g) (simp add: st_def)
  show ?thesis using A t v(1) unfolding h st_def[symmetric] by simp
qed

section \<open>Estimation failures\<close>

lemma analyzeMealImage_result:
  "fst (analyzeMealImage genAI JSON_parse img w) =
     (case genAI (length (calls w)) (imageRequest img) of
        Inl e \<Rightarrow> Inl e | Inr response \<Rightarrow> parseResponse JSON_parse response)"
  by (simp add: analyzeMealImage_def generateContent_def split: sum.splits)

lemma analyzeMealText_result:
  "fst (analyzeMealText genAI JSON_parse d w) =
     (case genAI (length (calls w)) (textRequest d) of
        Inl e \<Rightarrow> Inl e | Inr response \<Rightarrow> parseResponse JSON_parse response)"
  by (simp add: analyzeMealText_def generateContent_def split: sum.splits)

lemma analyzeMealImage_calls:
  "calls (snd (analyzeMealImage genAI JSON_parse img w)) = calls w @ [imageRequest img]"
  by (simp add: analyzeMealImage_def generateContent_def split: sum.splits)

lemma analyzeMealText_calls:
  "calls (snd (analyzeMealText genAI JSON_parse d w)) = calls w @ [textRequest d]"
  by (simp add: analyzeMealText_def generateContent_def split: sum.splits)

lemma analyzeImage_failure:
  assumes "fst (analyzeMealImage genAI JSON_parse img w) = Inl e"
  shows "fst (analyzeImage genAI JSON_parse img (am, w)) = am\<lparr>isAnalyzing := False, analysis := None\<rparr>"
    and "calls (snd (analyzeImage genAI JSON_parse img (am, w))) = calls w @ [imageRequest img]"
    and "alerts (snd (analyzeImage genAI JSON_parse img (am, w)))
         = alerts w @ [''Failed to analyze image. Please try again.'']"
proof -
  obtain r w1 where p: "analyzeMealImage genAI JSON_parse img w = (r, w1)"
    by (cases "analyzeMealImage genAI JSON_parse img w")
  then have r: "r = Inl e" using assms by simp
  have c: "calls w1 = calls w @ [imageRequest img]"
    using analyzeMealImage_calls[of genAI JSON_parse img w] p by simp
  have a: "alerts w1 = alerts w"
    using p by (auto simp: analyzeMealImage_def generateContent_def split: sum.splits)
  show "fst (analyzeImage genAI JSON_parse img (am, w)) = am\<lparr>isAnalyzing := False, analysis := None\<rparr>"
    by (simp add: analyzeImage_def p r)
  show "calls (snd (analyzeImage genAI JSON_parse img (am, w))) = calls w @ [imageRequest img]"
    by (simp add: analyzeImage_def p r c)
  show "alerts (snd (analyzeImage genAI JSON_parse img (am, w)))
         = alerts w @ [''Failed to analyze image. Please try again.'']"
    by (simp add: analyzeImage_def p r a)
qed

lemma handleTextAnalyze_failure:
  assumes "String_trim (textInput am) \<noteq> []"
    and "fst (analyzeMealText genAI JSON_parse (textInput am) w) = Inl e"
  shows "fst (handleTextAnalyze genAI JSON_parse (am, w)) = am\<lparr>isAnalyzing := False, analysis := None\<rparr>"
    and "calls (snd (handleTextAnalyze genAI JSON_parse (am, w)))
         = calls w @ [textRequest (textInput am)]"
    and "alerts (snd (handleTextAnalyze genAI JSON_parse (am, w)))
         = alerts w @ [''Failed to analyze text. Please try again.'']"
proof -
  obtain r w1 where p: "analyzeMealText genAI JSON_parse (textInput am) w = (r, w1)"
    by (cases "analyzeMealText genAI JSON_parse (textInput am) w")
  then have r: "r = Inl e" using assms by simp
  have c: "calls w1 = calls w @ [textRequest (textInput am)]"
    using analyzeMealText_calls[of genAI JSON_parse "textInput am" w] p by simp
  have a: "alerts w1 = alerts w"
    using p by (auto simp: analyzeMealText_def generateContent_def split: sum.splits)
  show "fst (handleTextAnalyze genAI JSON_parse (am, w)) = am\<lparr>isAnalyzing := False, analysis := None\<rparr>"
    using assms(1) by (simp add: handleTextAnalyze_def p r)
  show "calls (snd (handleTextAnalyze genAI JSON_parse (am, w)))
         = calls w @ [textRequest (textInput am)]"
    using assms(1) by (simp add: handleTextAnalyze_def p r c)
  show "alerts (snd (handleTextAnalyze genAI JSON_parse (am, w)))
         = alerts w @ [''Failed to analyze text. Please try again.'']"
    using assms(1) by (simp add: handleTextAnalyze_def p r a)
qed

lemma clickSave_without_analysis: "analysis am = None \<Longrightarrow> clickSave newId now am st = st"
  by (simp add: clickSave_def)

text \<open>
  C8.  \<open>analyzeMealImage\<close> and \<open>analyzeMealText\<close> send exactly one request, whatever
  comes back, and return the collaborator's failure as their own: a thrown error, an
  absent (or empty) response text, or a text \<open>JSON.parse\<close> rejects.  After a failed
  analysis the component holds no analysis, so the save button is not rendered and
  \<open>onSave\<close> cannot run: the application state, the meal log included, is as before.
  \<open>onSave\<close> runs only from a state that holds an analysis result.
\<close>

theorem estimation_failure_propagates:
  "fst (analyzeMealImage genAI JSON_parse img w) =
     (case genAI (length (calls w)) (imageRequest img) of
        Inl e \<Rightarrow> Inl e | Inr response \<Rightarrow> parseResponse JSON_parse response)
   \<and> fst (analyzeMealText genAI JSON_parse d w) =
     (case genAI (length (calls w)) (textRequest d) of
        Inl e \<Rightarrow> Inl e | Inr response \<Rightarrow> parseResponse JSON_parse response)
   \<and> calls (snd (analyzeMealImage genAI JSON_parse img w)) = calls w @ [imageRequest img]
   \<and> calls (snd (analyzeMealText genAI JSON_parse d w)) = calls w @ [textRequest d]
   \<and> (text' resp = None \<or> text' resp = Some [] \<longrightarrow>
        parseResponse JSON_parse resp = Inl (Error ''No response text from Gemini''))
   \<and> (text' resp = Some t \<and> t \<noteq> [] \<longrightarrow> parseResponse JSON_parse resp = JSON_parse t)
   \<and> (fst (analyzeMealImage genAI JSON_parse img w) = Inl e \<longrightarrow>
        analysis (fst (analyzeImage genAI JSON_parse img (am, w))) = None
        \<and> \<not> saveButtonRendered (fst (analyzeImage genAI JSON_parse img (am, w)))
        \<and> clickSave newId now (fst (analyzeImage genAI JSON_parse img (am, w))) st = st
        \<and> calls (snd (analyzeImage genAI JSON_parse img (am, w))) = calls w @ [imageRequest img]
        \<and> alerts (snd (analyzeImage genAI JSON_parse img (am, w)))
            = alerts w @ [''Failed to analyze image. Please try again.''])
   \<and> (String_trim (textInput am) \<noteq> []
        \<and> fst (analyzeMealText genAI JSON_parse (textInput am) w) = Inl e \<longrightarrow>
        analysis (fst (handleTextAnalyze genAI JSON_parse (am, w))) = None
        \<and> \<not> saveButtonRendered (fst (handleTextAnalyze genAI JSON_parse (am, w)))
        \<and> clickSave newId now (fst (handleTextAnalyze genAI JSON_parse (am, w))) st = st
        \<and> textInput (fst (handleTextAnalyze genAI JSON_parse (am, w))) = textInput am
        \<and> calls (snd (handleTextAnalyze genAI JSON_parse (am, w)))
            = calls w @ [textRequest (textInput am)]
        \<and> alerts (snd (handleTextAnalyze genAI JSON_parse (am, w)))
            = alerts w @ [''Failed to analyze text. Please try again.''])
   \<and> (clickSave newId now am st \<noteq> st \<longrightarrow>
        saveButtonRendered am \<and> (\<exists>a. analysis am = Some a
          \<and> meals (clickSave newId now am st) \<noteq> meals st))"
proof (intro conjI impI)
  show "fst (analyzeMealImage genAI JSON_parse img w) =
     (case genAI (length (calls w)) (imageRequest img) of
        Inl e \<Rightarrow> Inl e | Inr response \<Rightarrow> parseResponse JSON_parse response)"
    by (rule analyzeMealImage_result)
  show "fst (analyzeMealText genAI JSON_parse d w) =
     (case genAI (length (calls w)) (textRequest d) of
        Inl e \<Rightarrow> Inl e | Inr response \<Rightarrow> parseResponse JSON_parse response)"
    by (rule analyzeMealText_result)
  show "calls (snd (analyzeMealImage genAI JSON_parse img w)) = calls w @ [imageRequest img]"
    by (rule analyzeMealImage_calls)
  show "calls (snd (analyzeMealText genAI JSON_parse d w)) = calls w @ [textRequest d]"
    by (rule analyzeMealText_calls)
  show "parseResponse JSON_parse resp = Inl (Error ''No response text from Gemini'')"
    if "text' resp = None \<or> text' resp = Some []"
    using that by (auto simp: parseResponse_def)
  show "parseResponse JSON_parse resp = JSON_parse t" if "text' resp = Some t \<and> t \<noteq> []"
    using that by (simp add: parseResponse_def)
next
  assume f: "fst (analyzeMealImage genAI JSON_parse img w) = Inl e"
  note r = analyzeImage_failure[OF f, of am]
  show "analysis (fst (analyzeImage genAI JSON_parse img (am, w))) = None"
    by (simp add: r(1))
  show "\<not> saveButtonRendered (fst (analyzeImage genAI JSON_parse img (am, w)))"
    by (simp add: r(1) saveButtonRendered_def)
  show "clickSave newId now (fst (analyzeImage genAI JSON_parse img (am, w))) st = st"
    by (simp add: r(1) clickSave_without_analysis)
  show "calls (snd (analyzeImage genAI JSON_parse img (am, w))) = calls w @ [imageRequest img]"
    by (rule r(2))
  show "alerts (snd (analyzeImage genAI JSON_parse img (am, w)))
            = alerts w @ [''Failed to analyze image. Please try again.'']"
    by (rule r(3))
next
  assume f: "String_trim (textInput am) \<noteq> []
        \<and> fst (analyzeMealText genAI JSON_parse (textInput am) w) = Inl e"
  note r = handleTextAnalyze_failure[OF conjunct1[OF f] conjunct2[OF f]]
  show "analysis (fst (handleTextAnalyze genAI JSON_parse (am, w))) = None"
    by (simp add: r(1))
  show "\<not> saveButtonRendered (fst (handleTextAnalyze genAI JSON_parse (am, w)))"
    by (simp add: r(1) saveButtonRendered_def)
  show "clickSave newId now (fst (handleTextAnalyze genAI JSON_parse (am, w))) st = st"
    by (simp add: r(1) clickSave_without_analysis)
  show "textInput (fst (handleTextAnalyze genAI JSON_parse (am, w))) = textInput am"
    by (simp add: r(1))
  show "calls (snd (handleTextAnalyze genAI JSON_parse (am, w)))
            = calls w @ [textRequest (textInput am)]"
    by (rule r(2))
  show "alerts (snd (handleTextAnalyze genAI JSON_parse (am, w)))
            = alerts w @ [''Failed to analyze text. Please try again.'']"
    by (rule r(3))
next
  assume c: "clickSave newId now am st \<noteq> st"
  then show "saveButtonRendered am" by (auto simp: clickSave_def split: if_splits)
  from c obtain a where a: "analysis am = Some a" "saveButtonRendered am"
    by (auto simp: clickSave_def split: if_splits option.splits)
  have "meals (clickSave newId now am st) \<noteq> meals st"
    using a by (simp add: clickSave_def handleSaveMeal_def Let_def)
  then show "\<exists>a. analysis am = Some a \<and> meals (clickSave newId now am st) \<noteq> meals st"
    using a by blast
qed


text \<open>
  The three kinds of failure, from an empty request log: a thrown network error on an
  image, a response without text, and a text that does not parse, each followed by a
  save attempt; and a save from a state that holds an analysis.
\<close>

theorem estimation_failure_witness:
  "fst (analyzeMealImage (\<lambda>k r. Inl (Error ''network'')) (\<lambda>s. Inl SyntaxError) ''abc''
          \<lparr>calls = [], console = [], alerts = []\<rparr>) = Inl (Error ''network'')
   \<and> fst (analyzeMealImage (\<lambda>k r. Inr \<lparr>text' = None\<rparr>) (\<lambda>s. Inl SyntaxError) ''abc''
          \<lparr>calls = [], console = [], alerts = []\<rparr>)
       = Inl (Error ''No response text from Gemini'')
   \<and> fst (analyzeMealText (\<lambda>k r. Inr \<lparr>text' = Some ''{''\<rparr>) (\<lambda>s. Inl SyntaxError) ''2 eggs''
          \<lparr>calls = [], console = [], alerts = []\<rparr>) = Inl SyntaxError
   \<and> calls (snd (analyzeImage (\<lambda>k r. Inl (Error ''network'')) (\<lambda>s. Inl SyntaxError) ''abc''
          (AddMeal_init camera_mode, \<lparr>calls = [], console = [], alerts = []\<rparr>)))
       = [imageRequest ''abc'']
   \<and> clickSave ''id'' 0
        (fst (analyzeImage (\<lambda>k r. Inl (Error ''network'')) (\<lambda>s. Inl SyntaxError) ''abc''
          (AddMeal_init camera_mode, \<lparr>calls = [], console = [], alerts = []\<rparr>)))
        exampleApp = exampleApp
   \<and> String_trim ''2 eggs'' \<noteq> []
   \<and> clickSave ''id'' 0
        (fst (handleTextAnalyze (\<lambda>k r. Inr \<lparr>text' = Some ''{''\<rparr>) (\<lambda>s. Inl SyntaxError)
          ((AddMeal_init text_mode)\<lparr>textInput := ''2 eggs''\<rparr>,
           \<lparr>calls = [], console = [], alerts = []\<rparr>)))
        exampleApp = exampleApp
   \<and> clickSave ''id'' 0
        ((AddMeal_init text_mode)\<lparr>analysis := Some (MealAnalysis.truncate exampleLunch)\<rparr>)
        exampleApp \<noteq> exampleApp
   \<and> saveButtonRendered
        ((AddMeal_init text_mode)\<lparr>analysis := Some (MealAnalysis.truncate exampleLunch)\<rparr>)"
proof -
  define w0 where "w0 = \<lparr>calls = [], console = [], alerts = []\<rparr>"
  define P :: JSONParse where "P = (\<lambda>s. Inl SyntaxError)"
  define G1 :: GenAI where "G1 = (\<lambda>k r. Inl (Error ''network''))"
  define G2 :: GenAI where "G2 = (\<lambda>k r. Inr \<lparr>text' = None\<rparr>)"
  define G3 :: GenAI where "G3 = (\<lambda>k r. Inr \<lparr>text' = Some ''{''\<rparr>)"
  define am3 where "am3 = (AddMeal_init text_mode)\<lparr>textInput := ''2 eggs''\<rparr>"
  note A1 = estimation_failure_propagates[where genAI = G1 and JSON_parse = P and img = "''abc''"
      and w = w0 and d = "''2 eggs''" and resp = "\<lparr>text' = None\<rparr>" and t = "''{''"
      and e = "Error ''network''" and am = "AddMeal_init camera_mode" and newId = "''id''"
      and now = 0 and st = exampleApp]
  note A2 = estimation_failure_propagates[where genAI = G2 and JSON_parse = P and img = "''abc''"
      and w = w0 and d = "''2 eggs''" and resp = "\<lparr>text' = None\<rparr>" and t = "''{''"
      and e = "Error ''No response text from Gemini''" and am = "AddMeal_init camera_mode"
      and newId = "''id''" and now = 0 and st = exampleApp]
  note A3 = estimation_failure_propagates[where genAI = G3 and JSON_parse = P and img = "''abc''"
      and w = w0 and d = "''2 eggs''" and resp = "\<lparr>text' = Some ''{''\<rparr>" and t = "''{''"
      and e = SyntaxError and am = am3 and newId = "''id''" and now = 0 and st = exampleApp]
  have tr: "String_trim ''2 eggs'' \<noteq> []"
    by (simp add: String_trim_def isWhiteSpace_def)
  have f1: "fst (analyzeMealImage G1 P ''abc'' w0) = Inl (Error ''network'')"
    using A1 by (simp add: G1_def)
  have f2: "fst (analyzeMealImage G2 P ''abc'' w0) = Inl (Error ''No response text from Gemini'')"
    using A2 by (simp add: G2_def)
  have f3: "fst (analyzeMealText G3 P ''2 eggs'' w0) = Inl SyntaxError"
    using A3 by (simp add: G3_def P_def)
  have c1: "calls (snd (analyzeImage G1 P ''abc'' (AddMeal_init camera_mode, w0)))
       = [imageRequest ''abc'']"
    and s1: "clickSave ''id'' 0 (fst (analyzeImage G1 P ''abc'' (AddMeal_init camera_mode, w0)))
        exampleApp = exampleApp"
    using A1 f1 by (simp_all add: w0_def)
  have s3: "clickSave ''id'' 0 (fst (handleTextAnalyze G3 P (am3, w0))) exampleApp = exampleApp"
    using A3 f3 tr by (simp add: am3_def)
  define amS where
    "amS = (AddMeal_init text_mode)\<lparr>analysis := Some (MealAnalysis.truncate exampleLunch)\<rparr>"
  have "length (meals (clickSave ''id'' 0 amS exampleApp)) \<noteq> length (meals exampleApp)"
    by (simp add: clickSave_def saveButtonRendered_def analysisPanelRendered_def amS_def
        AddMeal_init_def handleSaveMeal_def exampleApp_def)
  then have s4: "clickSave ''id'' 0 amS exampleApp \<noteq> exampleApp" by auto
  have s5: "saveButtonRendered amS"
    using estimation_failure_propagates[where am = amS and newId = "''id''" and now = 0
        and st = exampleApp] s4 by blast
  show ?thesis
    using f1 f2 f3 c1 s1 tr s3 s4 s5
    unfolding w0_def P_def G1_def G2_def G3_def am3_def amS_def by blast
qed

section \<open>Aggregation\<close>

lemma addMealStats_other_day:
  "addMealStats g stats m = Inr stats' \<Longrightarrow>
   History_getGMT3DateString g (LoggedMeal.timestamp m) \<noteq> Inr day \<Longrightarrow> stats' day = stats day"
  by (auto simp: addMealStats_def Let_def split: sum.splits)

lemma addWaterStats_other_day:
  "addWaterStats g stats l = Inr stats' \<Longrightarrow>
   History_getGMT3DateString g (WaterLog.timestamp l) \<noteq> Inr day \<Longrightarrow> stats' day = stats day"
  by (auto simp: addWaterStats_def Let_def split: sum.splits)

lemma forEachE_keeps:
  assumes "\<And>s x s'. x \<in> set xs \<Longrightarrow> f s x = Inr s' \<Longrightarrow> s' day = s day"
    and "forEachE f xs s = Inr s'"
  shows "s' day = s day"
  using assms
proof (induction xs arbitrary: s)
  case Nil
  then show ?case by simp
next
  case (Cons x xs)
  from Cons.prems(2) obtain s1 where s1: "f s x = Inr s1" "forEachE f xs s1 = Inr s'"
    by (auto split: sum.splits)
  have "s' day = s1 day"
    by (rule Cons.IH[OF _ s1(2)]) (rule Cons.prems(1), simp_all)
  moreover have "s1 day = s day"
    by (rule Cons.prems(1)[OF _ s1(1)]) simp
  ultimately show ?case by simp
qed

lemma forEachE_succeeds:
  assumes "\<And>s x. x \<in> set xs \<Longrightarrow> \<exists>s'. f s x = Inr s'"
  shows "\<exists>s'. forEachE f xs s = Inr s'"
  using assms
proof (induction xs arbitrary: s)
  case Nil
  show ?case by simp
next
  case (Cons x xs)
  obtain s1 where s1: "f s x = Inr s1" using Cons.prems[of x s] by auto
  obtain s' where "forEachE f xs s1 = Inr s'" using Cons.IH[of s1] Cons.prems by auto
  then show ?case by (simp add: s1)
qed

lemma dailyStats_succeeds:
  assumes "\<forall>m\<in>set ms. \<exists>k. History_getGMT3DateString g (LoggedMeal.timestamp m) = Inr k"
    and "\<forall>l\<in>set ws. \<exists>k. History_getGMT3DateString g (WaterLog.timestamp l) = Inr k"
  shows "\<exists>stats. dailyStats g ms ws = Inr stats"
proof -
  have "\<exists>s'. forEachE (addMealStats g) ms Map.empty = Inr s'"
    by (rule forEachE_succeeds) (use assms(1) in \<open>auto simp: addMealStats_def Let_def\<close>)
  then obtain s1 where s1: "forEachE (addMealStats g) ms Map.empty = Inr s1" by blast
  have "\<exists>s'. forEachE (addWaterStats g) ws s1 = Inr s'"
    by (rule forEachE_succeeds) (use assms(2) in \<open>auto simp: addWaterStats_def Let_def\<close>)
  then show ?thesis by (simp add: dailyStats_def s1)
qed

lemma dailyStats_empty_day:
  assumes "dailyStats g ms ws = Inr stats"
    and "\<forall>m\<in>set ms. History_getGMT3DateString g (LoggedMeal.timestamp m) \<noteq> Inr day"
    and "\<forall>l\<in>set ws. History_getGMT3DateString g (WaterLog.timestamp l) \<noteq> Inr day"
  shows "stats day = None"
proof -
  from assms(1) obtain s1 where s1: "forEachE (addMealStats g) ms Map.empty = Inr s1"
    "forEachE (addWaterStats g) ws s1 = Inr stats"
    by (auto simp: dailyStats_def split: sum.splits)
  have "s1 day = Map.empty day"
    by (rule forEachE_keeps[OF _ s1(1)]) (use assms(2) addMealStats_other_day in blast)
  moreover have "stats day = s1 day"
    by (rule forEachE_keeps[OF _ s1(2)]) (use assms(3) addWaterStats_other_day in blast)
  ultimately show ?thesis by simp
qed

lemma rev_upt_Suc: "rev [0..<Suc n] = n # rev [0..<n]"
  by simp

lemma chartStep_Inr:
  assumes "dateStr (getTargetDate tzu tzl cur (- int i)) = Inr k"
  shows "chartStep tzu tzl stats cur i (data, tot, tracked) =
     Inr (if 0 < caloriesOn stats k
          then (data @ [\<lparr>calories = caloriesOn stats k, fullDate = k\<rparr>],
                tot + caloriesOn stats k, tracked + 1)
          else (data @ [\<lparr>calories = caloriesOn stats k, fullDate = k\<rparr>], tot, tracked))"
  by (simp add: chartStep_def assms caloriesOn_def Let_def)

lemma chartStep_Inl:
  assumes "dateStr (getTargetDate tzu tzl cur (- int i)) = Inl e"
  shows "chartStep tzu tzl stats cur i (data, tot, tracked) = Inl e"
  by (simp add: chartStep_def assms)

lemma chartLoop_period:
  "chartLoop (chartStep tzu tzl stats cur) n (data, tot, tracked) =
     (case sequenceE (map (\<lambda>i. dateStr (getTargetDate tzu tzl cur (- int i))) (rev [0..<n])) of
        Inl e \<Rightarrow> Inl e
      | Inr ks \<Rightarrow>
          Inr (data @ map (\<lambda>k. \<lparr>calories = caloriesOn stats k, fullDate = k\<rparr>) ks,
               tot + sum_list (filter (\<lambda>c. 0 < c) (map (caloriesOn stats) ks)),
               tracked + length (filter (\<lambda>c. 0 < c) (map (caloriesOn stats) ks))))"
proof (induction n arbitrary: data tot tracked)
  case 0
  show ?case by simp
next
  case (Suc n)
  show ?case
  proof (cases "dateStr (getTargetDate tzu tzl cur (- int n))")
    case (Inl e)
    then show ?thesis by (simp add: chartStep_Inl)
  next
    case (Inr k)
    show ?thesis
      unfolding rev_upt_Suc chartLoop.simps chartStep_Inr[OF Inr]
      by (simp add: Inr Suc.IH split: sum.splits)
  qed
qed

lemma renderChartView_period:
  "renderChartView tzu tzl stats cur days =
     (case periodKeys tzu tzl cur days of
        Inl e \<Rightarrow> Inl e
      | Inr ks \<Rightarrow> Inr (map (\<lambda>k. \<lparr>calories = caloriesOn stats k, fullDate = k\<rparr>) ks,
                       averagePerTrackedDay (map (caloriesOn stats) ks)))"
proof (cases "periodKeys tzu tzl cur days")
  case (Inl e)
  then show ?thesis
    unfolding renderChartView_def chartLoop_period periodKeys_def by simp
next
  case (Inr ks)
  define cs where "cs = filter (\<lambda>c. 0 < c) (map (caloriesOn stats) ks)"
  have a: "(if 0 < 0 + length cs then Math_round ((0 + sum_list cs) / real (0 + length cs)) else 0)
           = averagePerTrackedDay (map (caloriesOn stats) ks)"
    unfolding averagePerTrackedDay_def cs_def[symmetric] Let_def by (cases cs) simp_all
  show ?thesis
    using Inr unfolding renderChartView_def chartLoop_period periodKeys_def
    by (simp only: sum.case prod.case cs_def[symmetric] a append_Nil)
qed

lemma averagePerTrackedDay_untracked:
  "c \<le> 0 \<Longrightarrow> averagePerTrackedDay (xs @ [c] @ ys) = averagePerTrackedDay (xs @ ys)"
  by (simp add: averagePerTrackedDay_def)

lemma averagePerTrackedDay_none: "\<forall>c\<in>set cals. c \<le> 0 \<Longrightarrow> averagePerTrackedDay cals = 0"
proof -
  assume "\<forall>c\<in>set cals. c \<le> 0"
  then have "filter (\<lambda>c. 0 < c) cals = []" by (auto simp: filter_empty_conv)
  then show ?thesis by (simp add: averagePerTrackedDay_def)
qed


text \<open>
  C7.  For every collection of meals and water logs whose timestamps can be bucketed,
  \<open>dailyStats\<close> succeeds, and a day to which no event buckets has no entry, so that its
  totals read as all zero (a day is a key \<open>dateStr\<close> returns, as every key the view
  looks up is).  The chart view computes, over the day keys of its period,
  one point per day and the average over the tracked days only: the sum of the
  strictly positive daily energies divided by their number, 0 when there is none.  A
  day without energy does not enter the denominator.
\<close>

theorem aggregation_zero_day_and_average:
  "((\<forall>m\<in>set ms. \<exists>k. History_getGMT3DateString g (LoggedMeal.timestamp m) = Inr k)
      \<and> (\<forall>l\<in>set ws. \<exists>k. History_getGMT3DateString g (WaterLog.timestamp l) = Inr k) \<longrightarrow>
      (\<exists>stats. dailyStats g ms ws = Inr stats
         \<and> (dateStr d = Inr day
              \<and> (\<forall>m\<in>set ms. History_getGMT3DateString g (LoggedMeal.timestamp m) \<noteq> Inr day)
              \<and> (\<forall>l\<in>set ws. History_getGMT3DateString g (WaterLog.timestamp l) \<noteq> Inr day)
             \<longrightarrow> dayStats stats day
                   = \<lparr>DayStats.calories = 0, DayStats.protein = 0, DayStats.carbs = 0,
                      DayStats.fat = 0, water = 0\<rparr>
                 \<and> caloriesOn stats day = 0)))
   \<and> renderChartView tzu tzl st cur days =
       (case periodKeys tzu tzl cur days of
          Inl e \<Rightarrow> Inl e
        | Inr ks \<Rightarrow> Inr (map (\<lambda>k. \<lparr>calories = caloriesOn st k, fullDate = k\<rparr>) ks,
                         averagePerTrackedDay (map (caloriesOn st) ks)))
   \<and> averagePerTrackedDay cals =
       (if filter (\<lambda>c. 0 < c) cals = [] then 0
        else Math_round (sum_list (filter (\<lambda>c. 0 < c) cals)
                         / real (length (filter (\<lambda>c. 0 < c) cals))))
   \<and> (c \<le> 0 \<longrightarrow> averagePerTrackedDay (xs @ [c] @ ys) = averagePerTrackedDay (xs @ ys))
   \<and> ((\<forall>c\<in>set cals. c \<le> 0) \<longrightarrow> averagePerTrackedDay cals = 0)"
proof (intro conjI impI)
  assume h: "(\<forall>m\<in>set ms. \<exists>k. History_getGMT3DateString g (LoggedMeal.timestamp m) = Inr k)
      \<and> (\<forall>l\<in>set ws. \<exists>k. History_getGMT3DateString g (WaterLog.timestamp l) = Inr k)"
  then obtain stats where s: "dailyStats g ms ws = Inr stats"
    using dailyStats_succeeds[of ms g ws] by blast
  have "dayStats stats day
          = \<lparr>DayStats.calories = 0, DayStats.protein = 0, DayStats.carbs = 0,
             DayStats.fat = 0, water = 0\<rparr> \<and> caloriesOn stats day = 0"
    if "dateStr d = Inr day
        \<and> (\<forall>m\<in>set ms. History_getGMT3DateString g (LoggedMeal.timestamp m) \<noteq> Inr day)
        \<and> (\<forall>l\<in>set ws. History_getGMT3DateString g (WaterLog.timestamp l) \<noteq> Inr day)"
    using dailyStats_empty_day[OF s, of day] that
    by (simp add: dayStats_def caloriesOn_def zeroStats_def)
  then show "\<exists>stats. dailyStats g ms ws = Inr stats
         \<and> (dateStr d = Inr day
              \<and> (\<forall>m\<in>set ms. History_getGMT3DateString g (LoggedMeal.timestamp m) \<noteq> Inr day)
              \<and> (\<forall>l\<in>set ws. History_getGMT3DateString g (WaterLog.timestamp l) \<noteq> Inr day)
             \<longrightarrow> dayStats stats day
                   = \<lparr>DayStats.calories = 0, DayStats.protein = 0, DayStats.carbs = 0,
                      DayStats.fat = 0, water = 0\<rparr>
                 \<and> caloriesOn stats day = 0)"
    using s by blast
next
  show "renderChartView tzu tzl st cur days =
       (case periodKeys tzu tzl cur days of
          Inl e \<Rightarrow> Inl e
        | Inr ks \<Rightarrow> Inr (map (\<lambda>k. \<lparr>calories = caloriesOn st k, fullDate = k\<rparr>) ks,
                         averagePerTrackedDay (map (caloriesOn st) ks)))"
    by (rule renderChartView_period)
  show "averagePerTrackedDay cals =
       (if filter (\<lambda>c. 0 < c) cals = [] then 0
        else Math_round (sum_list (filter (\<lambda>c. 0 < c) cals)
                         / real (length (filter (\<lambda>c. 0 < c) cals))))"
    by (simp add: averagePerTrackedDay_def Let_def)
  show "averagePerTrackedDay (xs @ [c] @ ys) = averagePerTrackedDay (xs @ ys)" if "c \<le> 0"
    by (rule averagePerTrackedDay_untracked[OF that])
  show "averagePerTrackedDay cals = 0" if "\<forall>c\<in>set cals. c \<le> 0"
    by (rule averagePerTrackedDay_none[OF that])
qed

lemma periodKeys_example:
  "periodKeys (\<lambda>t. 0) (\<lambda>t. 0) ''2023-11-15'' 7 =
     Inr [''2023-11-09'', ''2023-11-10'', ''2023-11-11'', ''2023-11-12'', ''2023-11-13'',
          ''2023-11-14'', ''2023-11-15'']"
  by code_simp

lemma History_key_examples:
  "History_getGMT3DateString 3 1699995599999 = Inr ''2023-11-14''"
  "History_getGMT3DateString 3 1699995600000 = Inr ''2023-11-15''"
  "History_getGMT3DateString 3 1699995600001 = Inr ''2023-11-15''"
  using History_getGMT3DateString_3[unfolded GMT_OFFSET_HOURS_def]
  by (simp_all add: getGMT3DateString_before_midnight getGMT3DateString_at_midnight
      getGMT3DateString_after_midnight)

lemma dateStr_example: "dateStr (Some 1699833600000) = Inr ''2023-11-13''"
  by code_simp

lemma dailyStats_example:
  "dailyStats 3 [exampleLunch, exampleDinner] [exampleWater] =
     Inr [''2023-11-14'' \<mapsto> \<lparr>DayStats.calories = 600, DayStats.protein = 30,
                               DayStats.carbs = 50, DayStats.fat = 20, water = 0\<rparr>,
          ''2023-11-15'' \<mapsto> \<lparr>DayStats.calories = 900, DayStats.protein = 40,
                               DayStats.carbs = 90, DayStats.fat = 30, water = 250\<rparr>]"
  by (simp add: dailyStats_def addMealStats_def addWaterStats_def History_key_examples
      exampleLunch_def exampleDinner_def exampleWater_def zeroStats_def)

text \<open>
  The week ending on 15 November 2023 in a host at UTC: five days without events, then
  600 and 900 kcal; the average over the two tracked days is 750.
\<close>

theorem aggregation_witness:
  "\<exists>stats. dailyStats 3 [exampleLunch, exampleDinner] [exampleWater] = Inr stats
     \<and> dayStats stats ''2023-11-13''
         = \<lparr>DayStats.calories = 0, DayStats.protein = 0, DayStats.carbs = 0,
            DayStats.fat = 0, water = 0\<rparr>
     \<and> renderChartView (\<lambda>t. 0) (\<lambda>t. 0) stats ''2023-11-15'' 7 =
         Inr ([\<lparr>calories = 0, fullDate = ''2023-11-09''\<rparr>,
               \<lparr>calories = 0, fullDate = ''2023-11-10''\<rparr>,
               \<lparr>calories = 0, fullDate = ''2023-11-11''\<rparr>,
               \<lparr>calories = 0, fullDate = ''2023-11-12''\<rparr>,
               \<lparr>calories = 0, fullDate = ''2023-11-13''\<rparr>,
               \<lparr>calories = 600, fullDate = ''2023-11-14''\<rparr>,
               \<lparr>calories = 900, fullDate = ''2023-11-15''\<rparr>], 750)
     \<and> dateStr (Some 1699833600000) = Inr ''2023-11-13''
     \<and> averagePerTrackedDay [0, 0, 0, 0, 0, 600, 900]
         = averagePerTrackedDay [0, 0, 0, 0, 600, 900]
     \<and> averagePerTrackedDay [0, 0] = 0"
proof -
  define S where "S = [''2023-11-14'' \<mapsto> \<lparr>DayStats.calories = 600, DayStats.protein = 30,
                               DayStats.carbs = 50, DayStats.fat = 20, water = 0\<rparr>,
          ''2023-11-15'' \<mapsto> \<lparr>DayStats.calories = 900, DayStats.protein = 40,
                               DayStats.carbs = 90, DayStats.fat = 30, water = 250::real\<rparr>]"
  note A = aggregation_zero_day_and_average[where ms = "[exampleLunch, exampleDinner]"
      and g = 3 and ws = "[exampleWater]" and d = "Some 1699833600000"
      and day = "''2023-11-13''" and tzu = "\<lambda>t. 0" and tzl = "\<lambda>t. 0" and st = S
      and cur = "''2023-11-15''" and days = 7 and cals = "[0, 0, 0, 0, 0, 600, 900]"
      and c = 0 and xs = "[0, 0, 0, 0]" and ys = "[600, 900]"]
  note B = aggregation_zero_day_and_average[where ms = "[exampleLunch, exampleDinner]"
      and g = 3 and ws = "[exampleWater]" and d = "Some 1699833600000"
      and day = "''2023-11-13''" and tzu = "\<lambda>t. 0" and tzl = "\<lambda>t. 0" and st = S
      and cur = "''2023-11-15''" and days = 7 and cals = "[0, 0]"
      and c = 0 and xs = "[]" and ys = "[]"]
  have d: "dailyStats 3 [exampleLunch, exampleDinner] [exampleWater] = Inr S"
    unfolding S_def by (rule dailyStats_example)
  have k: "History_getGMT3DateString 3 (LoggedMeal.timestamp exampleLunch) = Inr ''2023-11-14''"
    "History_getGMT3DateString 3 (LoggedMeal.timestamp exampleDinner) = Inr ''2023-11-15''"
    "History_getGMT3DateString 3 (WaterLog.timestamp exampleWater) = Inr ''2023-11-15''"
    by (simp_all add: exampleLunch_def exampleDinner_def exampleWater_def History_key_examples)
  have z: "dayStats S ''2023-11-13''
         = \<lparr>DayStats.calories = 0, DayStats.protein = 0, DayStats.carbs = 0,
            DayStats.fat = 0, water = 0\<rparr>"
    using A[THEN conjunct1] d k dateStr_example by simp
  have c: "map (caloriesOn S) [''2023-11-09'', ''2023-11-10'', ''2023-11-11'', ''2023-11-12'',
             ''2023-11-13'', ''2023-11-14'', ''2023-11-15''] = [0, 0, 0, 0, 0, 600, 900]"
    by (simp add: caloriesOn_def S_def)
  have a: "averagePerTrackedDay [0, 0, 0, 0, 0, 600, 900] = 750"
    using A[THEN conjunct2, THEN conjunct2, THEN conjunct1] by (simp add: Math_round_def)
  have r: "renderChartView (\<lambda>t. 0) (\<lambda>t. 0) S ''2023-11-15'' 7 =
         Inr ([\<lparr>calories = 0, fullDate = ''2023-11-09''\<rparr>,
               \<lparr>calories = 0, fullDate = ''2023-11-10''\<rparr>,
               \<lparr>calories = 0, fullDate = ''2023-11-11''\<rparr>,
               \<lparr>calories = 0, fullDate = ''2023-11-12''\<rparr>,
               \<lparr>calories = 0, fullDate = ''2023-11-13''\<rparr>,
               \<lparr>calories = 600, fullDate = ''2023-11-14''\<rparr>,
               \<lparr>calories = 900, fullDate = ''2023-11-15''\<rparr>], 750)"
    using A[THEN conjunct2, THEN conjunct1] c a
    by (simp add: periodKeys_example)
  have u: "averagePerTrackedDay [0, 0, 0, 0, 0, 600, 900]
           = averagePerTrackedDay [0, 0, 0, 0, 600, 900]"
    using A[THEN conjunct2, THEN conjunct2, THEN conjunct2, THEN conjunct1] by simp
  have n: "averagePerTrackedDay [0, 0] = 0"
    using B[THEN conjunct2, THEN conjunct2, THEN conjunct2, THEN conjunct2] by simp
  show ?thesis using d z r u n dateStr_example by blast
qed

end
